theory Spec2Isabelle
  imports Main "HOL-Library.Sublist" "HOL-Library.Word"
begin

section \<open>The Local API server (package localapi)\<close>

subsection \<open>Values exchanged with the HTTP library\<close>

text \<open>
  A response body is the sequence of writes the handler made. \<open>Txt\<close> is a plain write,
  \<open>JSON v\<close> is one \<open>json.Encoder.Encode(v)\<close> call (the encoder's trailing newline
  included), \<open>JSONPrefs p\<close> is the encoding of a preferences value.
  \<open>JRaw\<close> stands for a value of the backend whose encoding the handlers never inspect.
\<close>

datatype json =
    JString string
  | JObject "(string \<times> json) list"
  | JArray "json list"
  | JRaw string

text \<open>
  Modelled from the spec: \<open>ipn.Prefs\<close> and \<open>ipn.MaskedPrefs\<close> are not in the visible
  sources. The specification treats preferences as an opaque record and a masked patch as
  new values for a subset of the fields: preferences are a value per field name, a
  \<open>MaskedPrefs\<close> carries new values for the fields its mask selects.
\<close>

type_synonym Prefs = "string \<Rightarrow> string"
type_synonym MaskedPrefs = "string \<Rightarrow> string option"

datatype chunk = Txt string | JSON json | JSONPrefs Prefs

definition nl :: string where
  "nl = [CHR 0x0A]"

text \<open>
  \<open>http.ResponseWriter\<close>. \<open>Status\<close> is \<open>None\<close> until the header is written.
  \<open>Hijacker\<close> says what the type assertion \<open>w.(http.Hijacker)\<close> and the call
  \<open>Hijack()\<close> give: \<open>None\<close> when the writer is no hijacker, \<open>Some None\<close> when
  hijacking succeeds, \<open>Some (Some e)\<close> when it fails with \<open>e\<close>. \<open>FlushErr\<close> is the
  result of flushing the hijacked buffer. \<open>Piped\<close> is the dialed connection the client
  connection has been bridged to, once the two copy loops run.
\<close>

record ResponseWriter =
  RespHeader :: "string \<Rightarrow> string option"
  Status :: "nat option"
  Body :: "chunk list"
  Hijacker :: "string option option"
  FlushErr :: bool
  Piped :: "nat option"

definition SetHeader :: "string \<Rightarrow> string \<Rightarrow> ResponseWriter \<Rightarrow> ResponseWriter" where
  "SetHeader k v w =
     (if Status w = None then w\<lparr>RespHeader := (RespHeader w)(k \<mapsto> v)\<rparr> else w)"

definition WriteHeader :: "nat \<Rightarrow> ResponseWriter \<Rightarrow> ResponseWriter" where
  "WriteHeader c w = (if Status w = None then w\<lparr>Status := Some c\<rparr> else w)"

definition Write :: "chunk \<Rightarrow> ResponseWriter \<Rightarrow> ResponseWriter" where
  "Write c w = (let w' = WriteHeader 200 w in w'\<lparr>Body := Body w' @ [c]\<rparr>)"

definition http_Error :: "ResponseWriter \<Rightarrow> string \<Rightarrow> nat \<Rightarrow> ResponseWriter" where
  "http_Error w msg c =
     Write (Txt (msg @ nl))
       (WriteHeader c
         (SetHeader ''X-Content-Type-Options'' ''nosniff''
           (SetHeader ''Content-Type'' ''text/plain; charset=utf-8'' w)))"

text \<open>\<open>writeErrorJSON\<close>; the handlers never pass it a nil error.\<close>

definition writeErrorJSON :: "ResponseWriter \<Rightarrow> string \<Rightarrow> ResponseWriter" where
  "writeErrorJSON w err =
     Write (JSON (JObject [(''error'', JString err)]))
       (WriteHeader 500 (SetHeader ''Content-Type'' ''application/json'' w))"

record Request =
  Method :: string
  Path :: string
  EscapedPath :: string
  BasicAuth :: "(string \<times> string) option"
  FormValue :: "string \<Rightarrow> string"
  ReqHeader :: "string \<Rightarrow> string"
  ReqBody :: string

text \<open>\<open>netip.Addr\<close>, as far as the code looks at it: its family and its text.\<close>

record Addr =
  Is4 :: bool
  String :: string

subsection \<open>The node backend and the process around the handlers\<close>

text \<open>
  The backend (\<open>ipnlocal.LocalBackend\<close>) is outside the visible sources. Each method the
  handlers call is a field giving the method's result; an error is its message.
\<close>

record FileTarget =
  Node :: string
  StableID :: string
  PeerAPIURL :: string

record LocalBackend =
  b_NetMap :: "string option"
  b_DoNoiseRequest :: "string \<Rightarrow> string + (nat \<times> string \<times> string option)"
  b_WhoIs :: "string \<Rightarrow> string option"
  b_PeerCaps :: "string \<Rightarrow> string"
  b_DebugRebind :: "string option"
  b_DebugReSTUN :: "string option"
  b_CheckIPForwarding :: "string option"
  b_Status :: string
  b_StatusWithoutPeers :: string
  b_LogoutSync :: "string option"
  b_CheckPrefs :: "Prefs \<Rightarrow> string option"
  b_WaitingFiles :: "string + string"
  b_DeleteFile :: "string \<Rightarrow> string option"
  b_OpenFile :: "string \<Rightarrow> string + (string \<times> nat)"
  b_FileTargets :: "string + FileTarget list"
  b_PeerAPIPut :: "string \<Rightarrow> string \<Rightarrow> string \<Rightarrow> nat \<times> string"
  b_SetDNS :: "string \<Rightarrow> string \<Rightarrow> string option"
  b_DERPMap :: string
  b_SetExpirySooner :: "int \<Rightarrow> string option"
  b_Ping :: "Addr \<Rightarrow> string \<Rightarrow> string + string"
  b_UserDial :: "string \<Rightarrow> string \<Rightarrow> string + nat"

text \<open>The backend methods a request made the handler call, in order.\<close>

datatype call =
    CallNetMap
  | CallDoNoiseRequest string
  | CallWhoIs string
  | CallPeerCaps string
  | CallDebugRebind
  | CallDebugReSTUN
  | CallCheckIPForwarding
  | CallStatus
  | CallStatusWithoutPeers
  | CallStartLoginInteractive
  | CallLogoutSync
  | CallEditPrefs
  | CallPrefs
  | CallCheckPrefs
  | CallWaitingFiles
  | CallDeleteFile string
  | CallOpenFile string
  | CallFileTargets
  | CallPeerAPITransport
  | CallSetDNS string string
  | CallDERPMap
  | CallSetExpirySooner int
  | CallPing Addr string
  | CallUserDial string string

text \<open>
  A metric of package \<open>clientmetric\<close>: its kind and its 64-bit value.
\<close>

datatype MetricKind = Counter | Gauge

record Metric =
  Kind :: MetricKind
  Val :: "64 word"

text \<open>
  The state a request can change: the backend's preferences, the trace of backend calls,
  the log, the process-wide table \<open>metrics\<close> of this package (a metric name to the
  \<open>*clientmetric.Metric\<close> created for it, the pointer written as the name the metric
  was published under) and the registry of package \<open>clientmetric\<close>. \<open>clock\<close> and
  \<open>entropy\<close> are what \<open>time.Now().UTC()\<close> and \<open>crypto/rand\<close> give.
\<close>

record Time =
  Year :: nat
  Month :: nat
  Day :: nat
  Hour :: nat
  Minute :: nat
  Second :: nat

record World =
  prefs :: Prefs
  calls :: "call list"
  logs :: "string list"
  metrics :: "string \<Rightarrow> string option"
  published :: "string \<Rightarrow> Metric option"
  clock :: Time
  entropy :: "nat \<Rightarrow> 8 word"

definition called :: "call \<Rightarrow> World \<Rightarrow> World" where
  "called c s = s\<lparr>calls := calls s @ [c]\<rparr>"

definition logf :: "string \<Rightarrow> World \<Rightarrow> World" where
  "logf line s = s\<lparr>logs := logs s @ [line]\<rparr>"

record Handler =
  RequiredPassword :: string
  PermitRead :: bool
  PermitWrite :: bool
  PermitCert :: bool
  b :: "LocalBackend option"
  backendLogID :: string

text \<open>
  An entry of the array \<open>/upload-client-metrics\<close> takes. \<open>Value\<close> is a Go \<open>int\<close>,
  64 bits wide on the platforms of the daemon, and is converted to \<open>int64\<close> unchanged.
\<close>

record clientMetricJSON =
  Name :: string
  Type :: string
  Value :: "64 word"

text \<open>
  What the handlers take from the standard library and from files of the package that
  are not visible: the parsers (\<open>None\<close> or \<open>Inl\<close> is the parse error;
  \<open>http_NewRequest\<close> gives the error, if any), the JSON encoders and the decoders of
  the request bodies, the goroutine dump, the text of the metrics, the optional profile
  handler and the certificate handler (\<open>serveCert\<close>).
\<close>

record Env =
  version_Long :: string
  ParseAddr :: "string \<Rightarrow> Addr option"
  ParseAddrPort :: "string \<Rightarrow> string option"
  ParseInt :: "string \<Rightarrow> int option"
  PathUnescape :: "string \<Rightarrow> string option"
  url_Parse :: "string \<Rightarrow> string option"
  strings_TrimSpace :: "string \<Rightarrow> string"
  fmt_q :: "string \<Rightarrow> string"
  json_Marshal_TokenRequest :: "string \<Rightarrow> string \<Rightarrow> string + string"
  http_NewRequest :: "string \<Rightarrow> string \<Rightarrow> string option"
  json_MarshalIndent_WhoIs :: "string \<Rightarrow> string \<Rightarrow> string option"
  decodeMaskedPrefs :: "string \<Rightarrow> string + MaskedPrefs"
  decodePrefs :: "string \<Rightarrow> Prefs option"
  decodeClientMetrics :: "string \<Rightarrow> clientMetricJSON list option"
  runtime_Stack :: string
  WritePrometheusExpositionFormat :: "World \<Rightarrow> string"
  serveProfileFunc :: "(ResponseWriter \<Rightarrow> Request \<Rightarrow> ResponseWriter) option"
  serveCert :: "Handler \<Rightarrow> ResponseWriter \<Rightarrow> Request \<Rightarrow> World \<Rightarrow> ResponseWriter \<times> World"

subsection \<open>servePing\<close>

definition servePing ::
  "LocalBackend \<Rightarrow> Env \<Rightarrow> ResponseWriter \<Rightarrow> Request \<Rightarrow> World \<Rightarrow> ResponseWriter \<times> World" where
  "servePing be env w r s =
     (if Method r \<noteq> ''POST'' then (http_Error w ''want POST'' 400, s)
      else
        let ipStr = FormValue r ''ip'' in
        if ipStr = '''' then (http_Error w ''missing 'ip' parameter'' 400, s)
        else
          (case ParseAddr env ipStr of
            None \<Rightarrow> (http_Error w ''invalid IP'' 400, s)
          | Some ip \<Rightarrow>
              let pingTypeStr = FormValue r ''type'' in
              if ipStr = '''' then (http_Error w ''missing 'type' parameter'' 400, s)
              else
                let s' = called (CallPing ip pingTypeStr) s in
                (case b_Ping be ip pingTypeStr of
                  Inl err \<Rightarrow> (writeErrorJSON w err, s')
                | Inr res \<Rightarrow>
                    (Write (JSON (JRaw res))
                       (SetHeader ''Content-Type'' ''application/json'' w), s'))))"

subsection \<open>serveDial\<close>

definition strings_Contains :: "string \<Rightarrow> string \<Rightarrow> bool" where
  "strings_Contains s substr = sublist substr s"

definition JoinHostPort :: "string \<Rightarrow> string \<Rightarrow> string" where
  "JoinHostPort host port =
     (if CHR '':'' \<in> set host then ''['' @ host @ '']:'' @ port else host @ '':'' @ port)"

definition upgradeProto :: string where
  "upgradeProto = ''ts-dial''"

text \<open>
  After the hijack the two copy loops run until one of them ends; the model records the
  dialed connection the client connection is bridged to.
\<close>

definition serveDial ::
  "Handler \<Rightarrow> LocalBackend \<Rightarrow> ResponseWriter \<Rightarrow> Request \<Rightarrow> World \<Rightarrow> ResponseWriter \<times> World" where
  "serveDial h be w r s =
     (if Method r \<noteq> ''POST'' then (http_Error w ''POST required'' 405, s)
      else if \<not> strings_Contains (ReqHeader r ''Connection'') ''upgrade''
              \<or> ReqHeader r ''Upgrade'' \<noteq> upgradeProto
        then (http_Error w ''bad ts-dial upgrade'' 400, s)
      else
        let hostStr = ReqHeader r ''Dial-Host''; portStr = ReqHeader r ''Dial-Port'' in
        if hostStr = '''' \<or> portStr = ''''
          then (http_Error w ''missing Dial-Host or Dial-Port header'' 400, s)
        else
          (case Hijacker w of
            None \<Rightarrow> (http_Error w ''make request over HTTP/1'' 400, s)
          | Some hijack \<Rightarrow>
              let addr = JoinHostPort hostStr portStr;
                  s' = called (CallUserDial ''tcp'' addr) s in
              (case b_UserDial be ''tcp'' addr of
                Inl err \<Rightarrow> (http_Error w (''dial failure: '' @ err) 502, s')
              | Inr outConn \<Rightarrow>
                  let w' = WriteHeader 101
                             (SetHeader ''Connection'' ''upgrade''
                               (SetHeader ''Upgrade'' upgradeProto w)) in
                  (case hijack of
                    Some err \<Rightarrow> (w', logf (''localapi dial Hijack error: '' @ err) s')
                  | None \<Rightarrow>
                      if FlushErr w then (w', s')
                      else (w'\<lparr>Piped := Some outConn\<rparr>, s')))))"

subsection \<open>serveIDToken\<close>


subsection \<open>serveBugReport\<close>

definition hextable :: string where
  "hextable = ''0123456789abcdef''"

text \<open>\<open>hex.EncodeToString\<close>: two digits per byte, the high nibble first.\<close>

definition hex_EncodeToString :: "8 word list \<Rightarrow> string" where
  "hex_EncodeToString src =
     concat (map (\<lambda>v. [hextable ! unat (drop_bit 4 v), hextable ! unat (and v 0x0f)]) src)"

text \<open>
  \<open>randHex n\<close> makes \<open>n\<close> bytes, has \<open>rand.Read\<close> fill them and returns their hex
  encoding; the source of random bytes moves on by \<open>n\<close>.
\<close>

definition randHex :: "nat \<Rightarrow> World \<Rightarrow> string \<times> World" where
  "randHex n s =
     (hex_EncodeToString (map (entropy s) [0..<n]),
      s\<lparr>entropy := (\<lambda>i. entropy s (i + n))\<rparr>)"

fun decimal :: "nat \<Rightarrow> string" where
  "decimal n =
     (if n < 10 then [''0123456789'' ! n]
      else decimal (n div 10) @ [''0123456789'' ! (n mod 10)])"

text \<open>The time package's \<open>appendInt\<close>: decimal, padded with zeros to the width.\<close>

definition appendInt :: "nat \<Rightarrow> nat \<Rightarrow> string" where
  "appendInt width x = replicate (width - length (decimal x)) (CHR ''0'') @ decimal x"

text \<open>\<open>t.Format("20060102150405Z")\<close>.\<close>

definition Format_20060102150405Z :: "Time \<Rightarrow> string" where
  "Format_20060102150405Z t =
     appendInt 4 (Year t) @ appendInt 2 (Month t) @ appendInt 2 (Day t)
       @ appendInt 2 (Hour t) @ appendInt 2 (Minute t) @ appendInt 2 (Second t) @ ''Z''"

definition serveBugReport ::
  "Handler \<Rightarrow> ResponseWriter \<Rightarrow> Request \<Rightarrow> World \<Rightarrow> ResponseWriter \<times> World" where
  "serveBugReport h w r s =
     (if \<not> PermitRead h then (http_Error w ''bugreport access denied'' 403, s)
      else
        let (hx, s1) = randHex 8 s;
            logMarker = ''BUG-'' @ backendLogID h @ ''-'' @ Format_20060102150405Z (clock s)
                          @ ''-'' @ hx;
            s2 = logf (''user bugreport: '' @ logMarker) s1;
            note = FormValue r ''note'';
            s3 = (if length note > 0 then logf (''user bugreport note: '' @ note) s2 else s2)
        in (Write (Txt (logMarker @ nl)) (SetHeader ''Content-Type'' ''text/plain'' w), s3))"

subsection \<open>serveWhoIs, serveGoroutines, serveMetrics, serveDebug, serveProfile\<close>






subsection \<open>serveCheckIPForwarding, serveStatus, serveLoginInteractive, serveLogout\<close>







subsection \<open>servePrefs and serveCheckPrefs\<close>

text \<open>
  Modelled from the spec: \<open>Prefs.ApplyEdits\<close> is not in the visible sources; the fields
  a patch does not mention remain untouched.
\<close>

definition ApplyEdits :: "Prefs \<Rightarrow> MaskedPrefs \<Rightarrow> Prefs" where
  "ApplyEdits p mp = (\<lambda>field. case mp field of Some v \<Rightarrow> v | None \<Rightarrow> p field)"

text \<open>
  Modelled from the spec: \<open>LocalBackend.EditPrefs\<close> (package ipnlocal) is not in the
  visible sources. The specification gives \<open>edit_prefs(MaskedPrefs) \<rightarrow> Prefs | Error\<close>
  and says that patching is atomic and that a patch that fails validation leaves the prior
  preferences untouched: the edited value is validated as \<open>check_prefs\<close> does and committed
  only when valid.
\<close>

definition EditPrefs :: "LocalBackend \<Rightarrow> MaskedPrefs \<Rightarrow> World \<Rightarrow> (string + Prefs) \<times> World" where
  "EditPrefs be mp s =
     (let s1 = called CallEditPrefs s; p1 = ApplyEdits (prefs s) mp in
      case b_CheckPrefs be p1 of
        Some err \<Rightarrow> (Inl err, s1)
      | None \<Rightarrow> (Inr p1, s1\<lparr>prefs := p1\<rparr>))"

text \<open>The encoding of \<open>resJSON\<close>, whose only field is omitted when empty.\<close>

definition resJSON :: "string \<Rightarrow> json" where
  "resJSON err = JObject (if err = '''' then [] else [(''Error'', JString err)])"

definition servePrefs ::
  "Handler \<Rightarrow> LocalBackend \<Rightarrow> Env \<Rightarrow> ResponseWriter \<Rightarrow> Request \<Rightarrow> World \<Rightarrow> ResponseWriter \<times> World" where
  "servePrefs h be env w r s =
     (if \<not> PermitRead h then (http_Error w ''prefs access denied'' 403, s)
      else if Method r = ''PATCH'' then
        (if \<not> PermitWrite h then (http_Error w ''prefs write access denied'' 403, s)
         else
           (case decodeMaskedPrefs env (ReqBody r) of
             Inl err \<Rightarrow> (http_Error w err 400, s)
           | Inr mp \<Rightarrow>
               (case EditPrefs be mp s of
                 (Inl err, s1) \<Rightarrow>
                   (Write (JSON (resJSON err))
                      (WriteHeader 400 (SetHeader ''Content-Type'' ''application/json'' w)), s1)
               | (Inr p, s1) \<Rightarrow>
                   (Write (JSONPrefs p) (SetHeader ''Content-Type'' ''application/json'' w), s1))))
      else if Method r = ''GET'' \<or> Method r = ''HEAD'' then
        (Write (JSONPrefs (prefs s)) (SetHeader ''Content-Type'' ''application/json'' w),
         called CallPrefs s)
      else (http_Error w ''unsupported method'' 405, s))"


subsection \<open>serveFiles, serveFileTargets, serveFilePut\<close>







subsection \<open>serveSetDNS, serveDERPMap, serveSetExpirySooner\<close>




subsection \<open>serveUploadClientMetrics\<close>

text \<open>
  Modelled from the spec: package \<open>clientmetric\<close> is not in the visible sources. The
  specification describes a process-wide table of named counters and gauges with
  \<open>register(name, kind)\<close> and \<open>add(handle, delta)\<close>. \<open>HasPublished\<close> says whether a
  name is in the table; \<open>NewCounter\<close> and \<open>NewGauge\<close> publish a metric of value 0 under
  the name and return it (the handler calls them for unpublished names only);
  \<open>Metric_Add\<close> adds to the 64-bit value.
\<close>

definition HasPublished :: "string \<Rightarrow> World \<Rightarrow> bool" where
  "HasPublished name s \<longleftrightarrow> published s name \<noteq> None"

definition NewCounter :: "string \<Rightarrow> World \<Rightarrow> string \<times> World" where
  "NewCounter name s =
     (name, s\<lparr>published := (published s)(name \<mapsto> \<lparr>Kind = Counter, Val = 0\<rparr>)\<rparr>)"

definition NewGauge :: "string \<Rightarrow> World \<Rightarrow> string \<times> World" where
  "NewGauge name s =
     (name, s\<lparr>published := (published s)(name \<mapsto> \<lparr>Kind = Gauge, Val = 0\<rparr>)\<rparr>)"

definition Metric_Add :: "string \<Rightarrow> 64 word \<Rightarrow> World \<Rightarrow> World" where
  "Metric_Add metric delta s =
     (case published s metric of
        None \<Rightarrow> s
      | Some m \<Rightarrow> s\<lparr>published := (published s)(metric \<mapsto> m\<lparr>Val := Val m + delta\<rparr>)\<rparr>)"

text \<open>
  The loop over the decoded array. \<open>Inl\<close> is the response of the \<open>return\<close> inside the
  loop, \<open>Inr ()\<close> says the loop ran to its end.
\<close>

fun uploadLoop ::
  "ResponseWriter \<Rightarrow> clientMetricJSON list \<Rightarrow> World \<Rightarrow> (ResponseWriter + unit) \<times> World" where
  "uploadLoop w [] s = (Inr (), s)"
| "uploadLoop w (m # ms) s =
     (case metrics s (Name m) of
        Some metric \<Rightarrow> uploadLoop w ms (Metric_Add metric (Value m) s)
      | None \<Rightarrow>
          if HasPublished (Name m) s
            then (Inl (http_Error w (''Already have a metric named '' @ Name m) 400), s)
          else if Type m = ''counter'' then
            (let (metric, s1) = NewCounter (Name m) s;
                 s2 = s1\<lparr>metrics := (metrics s1)(Name m \<mapsto> metric)\<rparr>
             in uploadLoop w ms (Metric_Add metric (Value m) s2))
          else if Type m = ''gauge'' then
            (let (metric, s1) = NewGauge (Name m) s;
                 s2 = s1\<lparr>metrics := (metrics s1)(Name m \<mapsto> metric)\<rparr>
             in uploadLoop w ms (Metric_Add metric (Value m) s2))
          else (Inl (http_Error w (''Unknown metric type '' @ Type m) 400), s))"

definition serveUploadClientMetrics ::
  "Env \<Rightarrow> ResponseWriter \<Rightarrow> Request \<Rightarrow> World \<Rightarrow> ResponseWriter \<times> World" where
  "serveUploadClientMetrics env w r s =
     (if Method r \<noteq> ''POST'' then (http_Error w ''unsupported method'' 405, s)
      else
        (case decodeClientMetrics env (ReqBody r) of
          None \<Rightarrow> (http_Error w ''invalid JSON body'' 400, s)
        | Some clientMetrics \<Rightarrow>
            (case uploadLoop w clientMetrics s of
              (Inl w1, s1) \<Rightarrow> (w1, s1)
            | (Inr u, s1) \<Rightarrow>
                (Write (JSON (JObject [])) (SetHeader ''Content-Type'' ''application/json'' w),
                 s1))))"

subsection \<open>ServeHTTP\<close>



section \<open>The Windows DNS configurator (package dns, manager_windows.go)\<close>

subsection \<open>The manager and the host state it writes\<close>

record OSConfig =
  Nameservers :: "Addr list"
  SearchDomains :: "string list"
  MatchDomains :: "string list"

text \<open>A registry value: a string (\<open>SetStringValue\<close>) or a 32-bit number (\<open>SetDWordValue\<close>).\<close>

datatype regval = SZ string | DWORD nat

text \<open>
  Modelled from the spec: \<open>nrptRuleDatabase\<close> (\<open>newNRPTRuleDatabase\<close>,
  \<open>DelAllRuleKeys\<close>, \<open>WriteSplitDNSConfig\<close>, \<open>Refresh\<close>) is not in the visible sources.
  The specification describes the split policy as one entry per suffix, pointing at the
  given nameservers, and the clearing of it; the database is the list of those entries
  (suffix, servers).
\<close>

record nrptRuleDatabase =
  rules :: "(string \<times> string list) list"

text \<open>What \<open>SetDNS\<close> does besides writing: log lines, policy refreshes, background tasks.\<close>

datatype effect = Log string | Refresh | Go string

text \<open>
  The manager (\<open>guid\<close>, \<open>nrptDB\<close>, where \<open>None\<close> is the nil pointer) together with the
  part of the host it acts on: the registry keys that exist, each with its values, and
  which operations the host refuses (\<open>reg_fails\<close> for writing or deleting a value of a
  key, \<open>nrpt_fails\<close> for the rule database), with the error they give. A key that does not
  exist cannot be opened (\<open>openKeyWait\<close> gives up after its timeout).
\<close>

record windowsManager =
  guid :: string
  nrptDB :: "nrptRuleDatabase option"
  registry :: "string \<Rightarrow> (string \<Rightarrow> regval option) option"
  reg_fails :: "string \<Rightarrow> string \<Rightarrow> string option"
  nrpt_fails :: "string option"
  trace :: "effect list"

definition backslash :: string where
  "backslash = [CHR 0x5C]"

definition ipv4RegBase :: string where
  "ipv4RegBase = ''SYSTEM'' @ backslash @ ''CurrentControlSet'' @ backslash @ ''Services''
                   @ backslash @ ''Tcpip'' @ backslash @ ''Parameters''"

definition ipv6RegBase :: string where
  "ipv6RegBase = ''SYSTEM'' @ backslash @ ''CurrentControlSet'' @ backslash @ ''Services''
                   @ backslash @ ''Tcpip6'' @ backslash @ ''Parameters''"

definition ifPath :: "windowsManager \<Rightarrow> string \<Rightarrow> string" where
  "ifPath m basePath = basePath @ backslash @ ''Interfaces'' @ backslash @ guid m"

text \<open>
  \<open>openKey\<close> gives the handle of an existing key, written as its path; the error
  of \<open>openKeyWait\<close> (not in the visible sources) is wrapped with the path.
\<close>

definition openKey :: "windowsManager \<Rightarrow> string \<Rightarrow> string + string" where
  "openKey m path =
     (case registry m path of
        None \<Rightarrow> Inl (''opening '' @ path @ '': key not found'')
      | Some vals \<Rightarrow> Inr path)"

definition SetValue :: "string \<Rightarrow> string \<Rightarrow> regval \<Rightarrow> windowsManager \<Rightarrow> string option \<times> windowsManager" where
  "SetValue key name v m =
     (case reg_fails m key name of
        Some err \<Rightarrow> (Some err, m)
      | None \<Rightarrow>
          (case registry m key of
             None \<Rightarrow> (Some ''invalid handle'', m)
           | Some vals \<Rightarrow> (None, m\<lparr>registry := (registry m)(key \<mapsto> vals(name \<mapsto> v))\<rparr>)))"

text \<open>\<open>delValue\<close>: deleting a value that does not exist is no error.\<close>

definition delValue :: "string \<Rightarrow> string \<Rightarrow> windowsManager \<Rightarrow> string option \<times> windowsManager" where
  "delValue key name m =
     (case reg_fails m key name of
        Some err \<Rightarrow> (Some err, m)
      | None \<Rightarrow>
          (case registry m key of
             None \<Rightarrow> (Some ''invalid handle'', m)
           | Some vals \<Rightarrow> (None, m\<lparr>registry := (registry m)(key \<mapsto> vals(name := None))\<rparr>)))"

text \<open>The early return \<open>if err != nil { return err }\<close> between two steps.\<close>

definition andThen ::
  "string option \<times> windowsManager \<Rightarrow> (windowsManager \<Rightarrow> string option \<times> windowsManager)
     \<Rightarrow> string option \<times> windowsManager" where
  "andThen res next_step =
     (case res of (Some err, m) \<Rightarrow> (Some err, m) | (None, m) \<Rightarrow> next_step m)"

subsection \<open>setSplitDNS\<close>

text \<open>
  Modelled from the spec: \<open>nrptRuleDatabase.DelAllRuleKeys\<close> and
  \<open>nrptRuleDatabase.WriteSplitDNSConfig\<close> are not in the visible sources. The first
  clears the split policy; the second writes it, one entry per suffix, pointing at the
  given nameservers. Either can be refused by the host.
\<close>

definition DelAllRuleKeys :: "windowsManager \<Rightarrow> string option \<times> windowsManager" where
  "DelAllRuleKeys m =
     (case nrpt_fails m of
        Some err \<Rightarrow> (Some err, m)
      | None \<Rightarrow> (None, m\<lparr>nrptDB := map_option (\<lambda>db. db\<lparr>rules := []\<rparr>) (nrptDB m)\<rparr>))"

definition WriteSplitDNSConfig ::
  "string list \<Rightarrow> string list \<Rightarrow> windowsManager \<Rightarrow> string option \<times> windowsManager" where
  "WriteSplitDNSConfig servers domains m =
     (case nrpt_fails m of
        Some err \<Rightarrow> (Some err, m)
      | None \<Rightarrow>
          (None, m\<lparr>nrptDB := map_option (\<lambda>db. db\<lparr>rules := map (\<lambda>d. (d, servers)) domains\<rparr>)
                                (nrptDB m)\<rparr>))"

text \<open>
  \<open>resolvers\<close> is \<open>None\<close> for the nil slice; \<open>SetDNS\<close> passes the nameservers of
  the configuration only when the database is there, where a nil and an empty slice behave
  alike. The deferred \<open>Refresh\<close> runs on every return once the database is known to be
  there.
\<close>

definition setSplitDNS ::
  "Addr list option \<Rightarrow> string list \<Rightarrow> windowsManager \<Rightarrow> string option \<times> windowsManager" where
  "setSplitDNS resolvers domains m =
     (case nrptDB m of
        None \<Rightarrow>
          if resolvers = None then (None, m)
          else (Some ''Split DNS unsupported on this Windows version'', m)
      | Some db \<Rightarrow>
          let (err, m1) =
                (if length (case resolvers of None \<Rightarrow> [] | Some rs \<Rightarrow> rs) = 0
                   then DelAllRuleKeys m
                 else WriteSplitDNSConfig
                        (map String (case resolvers of None \<Rightarrow> [] | Some rs \<Rightarrow> rs)) domains m)
          in (err, m1\<lparr>trace := trace m1 @ [Refresh]\<rparr>))"

subsection \<open>setPrimaryDNS\<close>

fun Join :: "string list \<Rightarrow> string \<Rightarrow> string" where
  "Join [] sep = ''''"
| "Join [x] sep = x"
| "Join (x # y # ys) sep = x @ sep @ Join (y # ys) sep"

text \<open>
  Modelled from the spec: \<open>dnsname.FQDN.WithoutTrailingDot\<close> is not in the visible
  sources; a fully qualified name carries its trailing dot, which this drops.
\<close>

definition WithoutTrailingDot :: "string \<Rightarrow> string" where
  "WithoutTrailingDot f = butlast f"

definition setPrimaryDNS ::
  "Addr list \<Rightarrow> string list \<Rightarrow> windowsManager \<Rightarrow> string option \<times> windowsManager" where
  "setPrimaryDNS resolvers domains m =
     (let ipsv4 = map String (filter Is4 resolvers);
          ipsv6 = map String (filter (\<lambda>ip. \<not> Is4 ip) resolvers);
          domStrs = map WithoutTrailingDot domains
      in
      case openKey m (ifPath m ipv4RegBase) of
        Inl err \<Rightarrow> (Some err, m)
      | Inr key4 \<Rightarrow>
          andThen
            (if length ipsv4 = 0 then delValue key4 ''NameServer'' m
             else SetValue key4 ''NameServer'' (SZ (Join ipsv4 '','')) m)
            (\<lambda>m.
          andThen
            (if length domains = 0 then delValue key4 ''SearchList'' m
             else SetValue key4 ''SearchList'' (SZ (Join domStrs '','')) m)
            (\<lambda>m.
          (case openKey m (ifPath m ipv6RegBase) of
            Inl err \<Rightarrow> (Some err, m)
          | Inr key6 \<Rightarrow>
              andThen
                (if length ipsv6 = 0 then delValue key6 ''NameServer'' m
                 else SetValue key6 ''NameServer'' (SZ (Join ipsv6 '','')) m)
                (\<lambda>m.
              andThen
                (if length domains = 0 then delValue key6 ''SearchList'' m
                 else SetValue key6 ''SearchList'' (SZ (Join domStrs '','')) m)
                (\<lambda>m.
              andThen (SetValue key4 ''EnableMulticast'' (DWORD 0) m)
                (\<lambda>m. SetValue key6 ''EnableMulticast'' (DWORD 0) m)))))))"

subsection \<open>SetDNS\<close>

definition disableDynamicUpdates :: "windowsManager \<Rightarrow> string option \<times> windowsManager" where
  "disableDynamicUpdates m =
     (case openKey m (ifPath m ipv4RegBase) of
        Inl err \<Rightarrow> (Some err, m)
      | Inr key \<Rightarrow>
          andThen (SetValue key ''DisableDynamicUpdate'' (DWORD 1) m)
            (\<lambda>m.
          (case openKey m (ifPath m ipv6RegBase) of
            Inl err \<Rightarrow> (Some err, m)
          | Inr key \<Rightarrow> SetValue key ''DisableDynamicUpdate'' (DWORD 1) m)))"

text \<open>
  \<open>configureWSL\<close> is the debug switch \<open>TS_DEBUG_CONFIGURE_WSL\<close>. The two background
  tasks are started and not waited for; the model records that they were started.
\<close>

definition SetDNS ::
  "bool \<Rightarrow> OSConfig \<Rightarrow> windowsManager \<Rightarrow> string option \<times> windowsManager" where
  "SetDNS configureWSL cfg m =
     (let m1 = (case disableDynamicUpdates m of
                  (Some err, m') \<Rightarrow>
                    m'\<lparr>trace := trace m' @ [Log (''disableDynamicUpdates error: '' @ err)]\<rparr>
                | (None, m') \<Rightarrow> m');
          configured =
            (if length (MatchDomains cfg) = 0 then
               andThen (setSplitDNS None [] m1)
                 (\<lambda>m. setPrimaryDNS (Nameservers cfg) (SearchDomains cfg) m)
             else if nrptDB m1 = None then
               (Some ''cannot set per-domain resolvers on Windows 7'', m1)
             else
               andThen (setSplitDNS (Some (Nameservers cfg)) (MatchDomains cfg) m1)
                 (\<lambda>m. setPrimaryDNS [] (SearchDomains cfg) m))
      in
      case configured of
        (Some err, m2) \<Rightarrow> (Some err, m2)
      | (None, m2) \<Rightarrow>
          (None,
           m2\<lparr>trace := trace m2 @ [Go ''ipconfig /registerdns; ipconfig /flushdns'']
                          @ (if configureWSL then [Go ''wslManager.SetDNS''] else [])\<rparr>))"





subsection \<open>What a run of the configurator depends on, and what it writes\<close>

text \<open>A value of a key of the registry, if the key and the value exist.\<close>

definition regValue :: "windowsManager \<Rightarrow> string \<Rightarrow> string \<Rightarrow> regval option" where
  "regValue m key name = (case registry m key of None \<Rightarrow> None | Some vals \<Rightarrow> vals name)"

text \<open>
  Two states with the same surroundings: the same interface, the same refusals, the same
  keys existing, the rule database there in both or in neither.
\<close>

definition same_env :: "windowsManager \<Rightarrow> windowsManager \<Rightarrow> bool" where
  "same_env m m2 \<longleftrightarrow>
     guid m2 = guid m \<and> reg_fails m2 = reg_fails m \<and> nrpt_fails m2 = nrpt_fails m
     \<and> (\<forall>key. (registry m2 key = None) = (registry m key = None))
     \<and> ((nrptDB m2 = None) = (nrptDB m = None))"

text \<open>
  An operation that only overwrites: it keeps the surroundings, and from two states with
  the same surroundings it returns the same error and, for every registry value and for
  the rule database, either leaves the same content in both or touches it in neither.
\<close>

definition overwrites :: "(windowsManager \<Rightarrow> string option \<times> windowsManager) \<Rightarrow> bool" where
  "overwrites F \<longleftrightarrow>
     (\<forall>m. same_env m (snd (F m)))
     \<and> (\<forall>m m2. same_env m m2 \<longrightarrow>
           fst (F m2) = fst (F m)
           \<and> (\<forall>key name.
                 regValue (snd (F m2)) key name = regValue (snd (F m)) key name
                 \<or> regValue (snd (F m2)) key name = regValue m2 key name
                   \<and> regValue (snd (F m)) key name = regValue m key name)
           \<and> (nrptDB (snd (F m2)) = nrptDB (snd (F m))
                \<or> nrptDB (snd (F m2)) = nrptDB m2 \<and> nrptDB (snd (F m)) = nrptDB m))"


section \<open>Concrete values\<close>

text \<open>A backend, an environment, a fresh response writer and a world to run requests in.\<close>

definition ex_addr :: Addr where
  "ex_addr = \<lparr>Is4 = True, String = ''100.64.0.1''\<rparr>"

definition ex_backend :: LocalBackend where
  "ex_backend =
     \<lparr>b_NetMap = Some ''nodekey:01'',
      b_DoNoiseRequest = (\<lambda>req. Inr (200, ''token'', None)),
      b_WhoIs = (\<lambda>ipp. None),
      b_PeerCaps = (\<lambda>ipp. ''[]''),
      b_DebugRebind = None,
      b_DebugReSTUN = None,
      b_CheckIPForwarding = None,
      b_Status = ''{}'',
      b_StatusWithoutPeers = ''{}'',
      b_LogoutSync = None,
      b_CheckPrefs =
        (\<lambda>p. if p ''ExitNodeIP'' = ''bogus'' then Some ''invalid exit node'' else None),
      b_WaitingFiles = Inr ''[]'',
      b_DeleteFile = (\<lambda>name. None),
      b_OpenFile = (\<lambda>name. Inl ''no such file''),
      b_FileTargets = Inr [],
      b_PeerAPIPut = (\<lambda>u f body. (200, '''')),
      b_SetDNS = (\<lambda>name v. None),
      b_DERPMap = ''{}'',
      b_SetExpirySooner = (\<lambda>t. None),
      b_Ping = (\<lambda>ip t. Inr ''{}''),
      b_UserDial = (\<lambda>network addr. if addr = ''peer:22'' then Inr 7 else Inl ''unreachable'')\<rparr>"

definition ex_metrics_body :: "clientMetricJSON list" where
  "ex_metrics_body =
     [\<lparr>Name = ''gui_opens'', Type = ''counter'', Value = 1\<rparr>,
      \<lparr>Name = ''gui_latency'', Type = ''histogram'', Value = 2\<rparr>]"

definition ex_env :: Env where
  "ex_env =
     \<lparr>version_Long = ''1.30.0'',
      ParseAddr = (\<lambda>str. if str = ''100.64.0.1'' then Some ex_addr else None),
      ParseAddrPort = (\<lambda>str. if str = ''100.64.0.1:80'' then Some str else None),
      ParseInt = (\<lambda>str. None),
      PathUnescape = Some,
      url_Parse = Some,
      strings_TrimSpace = (\<lambda>str. str),
      fmt_q = (\<lambda>str. str),
      json_Marshal_TokenRequest = (\<lambda>aud k. Inr aud),
      http_NewRequest = (\<lambda>m u. None),
      json_MarshalIndent_WhoIs = (\<lambda>nu caps. Some nu),
      decodeMaskedPrefs =
        (\<lambda>body. if body = ''{'' then Inl ''unexpected EOF''
                 else Inr (\<lambda>field. if field = ''ExitNodeIP'' then Some body else None)),
      decodePrefs = (\<lambda>body. None),
      decodeClientMetrics =
        (\<lambda>body. if body = ''two'' then Some ex_metrics_body
                 else if body = ''retyped''
                   then Some [\<lparr>Name = ''gui_opens'', Type = ''gauge'', Value = 3\<rparr>]
                 else None),
      runtime_Stack = ''goroutine 1 [running]'',
      WritePrometheusExpositionFormat = (\<lambda>s. ''''),
      serveProfileFunc = None,
      serveCert = (\<lambda>h w r s. (w, s))\<rparr>"

definition ex_writer :: ResponseWriter where
  "ex_writer =
     \<lparr>RespHeader = (\<lambda>k. None), Status = None, Body = [], Hijacker = Some None,
      FlushErr = False, Piped = None\<rparr>"

definition ex_world :: World where
  "ex_world =
     \<lparr>prefs = (\<lambda>field. ''''), calls = [], logs = [], metrics = (\<lambda>name. None),
      published = (\<lambda>name. None),
      clock = \<lparr>Year = 2022, Month = 9, Day = 5, Hour = 7, Minute = 8, Second = 9\<rparr>,
      entropy = (\<lambda>i. of_nat (16 * i + 10))\<rparr>"

definition ex_handler :: Handler where
  "ex_handler =
     \<lparr>RequiredPassword = '''', PermitRead = True, PermitWrite = True, PermitCert = False,
      b = Some ex_backend, backendLogID = ''abc123''\<rparr>"

definition ex_request :: "string \<Rightarrow> string \<Rightarrow> (string \<Rightarrow> string) \<Rightarrow> (string \<Rightarrow> string) \<Rightarrow> string \<Rightarrow> Request" where
  "ex_request m p form hdr body =
     \<lparr>Method = m, Path = p, EscapedPath = p, BasicAuth = None, FormValue = form,
      ReqHeader = hdr, ReqBody = body\<rparr>"

definition ex_ping_request :: Request where
  "ex_ping_request =
     ex_request ''POST'' ''/localapi/v0/ping''
       (\<lambda>k. if k = ''ip'' then ''100.64.0.1'' else '''') (\<lambda>k. '''') ''''"

definition ex_dial_request :: "string \<Rightarrow> string \<Rightarrow> string \<Rightarrow> Request" where
  "ex_dial_request upgrade host port =
     ex_request ''POST'' ''/localapi/v0/dial'' (\<lambda>k. '''')
       (\<lambda>k. if k = ''Connection'' then ''upgrade''
            else if k = ''Upgrade'' then upgrade
            else if k = ''Dial-Host'' then host
            else if k = ''Dial-Port'' then port
            else '''') ''''"

section \<open>The handler table of the specification\<close>




definition ex_get :: "string \<Rightarrow> Request" where
  "ex_get p = ex_request ''GET'' p (\<lambda>k. '''') (\<lambda>k. '''') ''''"




definition ex_patch :: "string \<Rightarrow> Request" where
  "ex_patch body = ex_request ''PATCH'' ''/localapi/v0/prefs'' (\<lambda>k. '''') (\<lambda>k. '''') body"

definition ex_bugreport_request :: Request where
  "ex_bugreport_request =
     ex_request ''POST'' ''/localapi/v0/bugreport''
       (\<lambda>k. if k = ''note'' then ''dns is down'' else '''') (\<lambda>k. '''') ''''"

text \<open>
  The entries at which the loop of \<open>serveUploadClientMetrics\<close> returns: the name is not
  in the table \<open>metrics\<close>, and it is published already or the type is neither
  \<open>counter\<close> nor \<open>gauge\<close>.
\<close>

definition rejected :: "World \<Rightarrow> clientMetricJSON \<Rightarrow> bool" where
  "rejected s m \<longleftrightarrow>
     metrics s (Name m) = None
     \<and> (HasPublished (Name m) s \<or> (Type m \<noteq> ''counter'' \<and> Type m \<noteq> ''gauge''))"

text \<open>
  What an entry that is not rejected does to the two tables, written out. A name in the
  table \<open>metrics\<close> has the entry's value added to the metric it points at. A new name is
  entered in the table and published with the kind its type names and, starting from 0,
  the entry's value.
\<close>

definition entryEffect :: "clientMetricJSON \<Rightarrow> World \<Rightarrow> World" where
  "entryEffect m s =
     (case metrics s (Name m) of
        Some h \<Rightarrow>
          (case published s h of
             None \<Rightarrow> s
           | Some old \<Rightarrow> s\<lparr>published := (published s)(h \<mapsto> old\<lparr>Val := Val old + Value m\<rparr>)\<rparr>)
      | None \<Rightarrow>
          s\<lparr>metrics := (metrics s)(Name m \<mapsto> Name m),
            published := (published s)
              (Name m \<mapsto> \<lparr>Kind = (if Type m = ''counter'' then Counter else Gauge),
                          Val = Value m\<rparr>)\<rparr>)"

text \<open>The effects of a list of entries, one after the other.\<close>

fun entryEffects :: "clientMetricJSON list \<Rightarrow> World \<Rightarrow> World" where
  "entryEffects [] s = s"
| "entryEffects (m # ms) s = entryEffects ms (entryEffect m s)"

text \<open>No entry of the list is rejected in the world the entries before it leave.\<close>

fun allAccepted :: "World \<Rightarrow> clientMetricJSON list \<Rightarrow> bool" where
  "allAccepted s [] = True"
| "allAccepted s (m # ms) = (\<not> rejected s m \<and> allAccepted (entryEffect m s) ms)"

text \<open>The text of the 400 answer to a rejected entry.\<close>

definition rejectMessage :: "World \<Rightarrow> clientMetricJSON \<Rightarrow> string" where
  "rejectMessage s m =
     (if HasPublished (Name m) s then ''Already have a metric named '' @ Name m
      else ''Unknown metric type '' @ Type m)"

definition ex_upload :: "string \<Rightarrow> Request" where
  "ex_upload body =
     ex_request ''POST'' ''/localapi/v0/upload-client-metrics'' (\<lambda>k. '''') (\<lambda>k. '''') body"









section \<open>Properties\<close>

subsection \<open>Response writer\<close>

lemma http_Error_Status: "Status w = None \<Longrightarrow> Status (http_Error w msg c) = Some c"
  by (simp add: http_Error_def Write_def WriteHeader_def SetHeader_def Let_def)

lemma http_Error_Body: "Body (http_Error w msg c) = Body w @ [Txt (msg @ nl)]"
  by (simp add: http_Error_def Write_def WriteHeader_def SetHeader_def Let_def)

lemma http_Error_Piped: "Piped (http_Error w msg c) = Piped w"
  by (simp add: http_Error_def Write_def WriteHeader_def SetHeader_def Let_def)

lemma writeErrorJSON_Status: "Status w = None \<Longrightarrow> Status (writeErrorJSON w e) = Some 500"
  by (simp add: writeErrorJSON_def Write_def WriteHeader_def SetHeader_def Let_def)

lemma writeErrorJSON_Body:
  "Body (writeErrorJSON w e) = Body w @ [JSON (JObject [(''error'', JString e)])]"
  by (simp add: writeErrorJSON_def Write_def WriteHeader_def SetHeader_def Let_def)

lemma SetHeader_Status [simp]: "Status (SetHeader k v w) = Status w"
  by (simp add: SetHeader_def)

subsection \<open>servePing\<close>

text \<open>
  C10. For a POST to \<open>/ping\<close> whose \<open>ip\<close> parameter is non-empty and parses and whose
  \<open>type\<close> parameter is empty, the handler calls the backend's \<open>Ping\<close> with the empty ping
  type and does not answer 400; and no request at all gets the answer
  \<open>missing 'type' parameter\<close>, whose guard tests the \<open>ip\<close> string again.
\<close>

theorem servePing_missing_type_unreachable:
  assumes "Method r = ''POST''"
    and "FormValue r ''ip'' \<noteq> ''''"
    and "ParseAddr env (FormValue r ''ip'') = Some ip"
    and "FormValue r ''type'' = ''''"
    and "Status w = None"
  shows "calls (snd (servePing be env w r s)) = calls s @ [CallPing ip '''']
       \<and> Status (fst (servePing be env w r s)) \<noteq> Some 400
       \<and> (\<forall>w0 r0 s0. Body (fst (servePing be env w0 r0 s0))
                     \<noteq> Body w0 @ [Txt (''missing 'type' parameter'' @ nl)])"
proof (intro conjI)
  show "calls (snd (servePing be env w r s)) = calls s @ [CallPing ip '''']"
    using assms by (simp add: servePing_def Let_def called_def split: sum.splits)
  show "Status (fst (servePing be env w r s)) \<noteq> Some 400"
    using assms
    by (simp add: servePing_def Let_def writeErrorJSON_Status Write_def WriteHeader_def
          split: sum.splits)
  show "\<forall>w0 r0 s0. Body (fst (servePing be env w0 r0 s0))
                     \<noteq> Body w0 @ [Txt (''missing 'type' parameter'' @ nl)]"
    by (simp add: servePing_def Let_def http_Error_Body writeErrorJSON_Body Write_def
          WriteHeader_def SetHeader_def split: sum.splits option.splits)
qed

theorem servePing_missing_type_unreachable_witness:
  "Method ex_ping_request = ''POST''
   \<and> FormValue ex_ping_request ''ip'' = ''100.64.0.1''
   \<and> FormValue ex_ping_request ''type'' = ''''
   \<and> calls (snd (servePing ex_backend ex_env ex_writer ex_ping_request ex_world))
       = [CallPing ex_addr '''']
   \<and> Status (fst (servePing ex_backend ex_env ex_writer ex_ping_request ex_world)) \<noteq> Some 400"
proof -
  have h1: "Method ex_ping_request = ''POST''"
    and h2: "FormValue ex_ping_request ''ip'' \<noteq> ''''"
    and h3: "ParseAddr ex_env (FormValue ex_ping_request ''ip'') = Some ex_addr"
    and h4: "FormValue ex_ping_request ''type'' = ''''"
    and h5: "Status ex_writer = None"
    by (simp_all add: ex_ping_request_def ex_request_def ex_env_def ex_writer_def)
  from servePing_missing_type_unreachable [OF h1 h2 h3 h4 h5, of ex_backend ex_world]
  show ?thesis
    by (simp add: ex_ping_request_def ex_request_def ex_world_def)
qed

subsection \<open>serveDial\<close>

text \<open>
  C7. For a POST to \<open>/dial\<close> on a fresh response writer: when the \<open>Connection\<close> header
  lacks \<open>upgrade\<close> or the \<open>Upgrade\<close> header is not \<open>ts-dial\<close> the answer is 400, with no
  dial and no pipe; when \<open>Dial-Host\<close> or \<open>Dial-Port\<close> is missing the answer is 400, with no
  dial and no pipe; when the backend's dial fails the answer is 502 and there is no pipe;
  the answer is 101 only after the dial has succeeded, and then carries the upgrade
  headers; and whenever the answer is not 101 it is 400 or 502 and there is no pipe.
\<close>

theorem serveDial_failures_before_hijack:
  assumes post: "Method r = ''POST''"
    and fresh: "Status w = None" "Piped w = None"
    and res: "serveDial h be w r s = (w', s')"
  shows "(\<not> strings_Contains (ReqHeader r ''Connection'') ''upgrade''
            \<or> ReqHeader r ''Upgrade'' \<noteq> ''ts-dial'' \<longrightarrow>
            Status w' = Some 400 \<and> calls s' = calls s \<and> Piped w' = None)
       \<and> (ReqHeader r ''Dial-Host'' = '''' \<or> ReqHeader r ''Dial-Port'' = '''' \<longrightarrow>
            Status w' = Some 400 \<and> calls s' = calls s \<and> Piped w' = None)
       \<and> (strings_Contains (ReqHeader r ''Connection'') ''upgrade''
            \<and> ReqHeader r ''Upgrade'' = ''ts-dial''
            \<and> ReqHeader r ''Dial-Host'' \<noteq> '''' \<and> ReqHeader r ''Dial-Port'' \<noteq> ''''
            \<and> Hijacker w \<noteq> None
            \<and> isl (b_UserDial be ''tcp''
                     (JoinHostPort (ReqHeader r ''Dial-Host'') (ReqHeader r ''Dial-Port''))) \<longrightarrow>
            Status w' = Some 502 \<and> Piped w' = None)
       \<and> (Status w' = Some 101 \<longrightarrow>
            \<not> isl (b_UserDial be ''tcp''
                     (JoinHostPort (ReqHeader r ''Dial-Host'') (ReqHeader r ''Dial-Port'')))
            \<and> calls s' = calls s @ [CallUserDial ''tcp''
                     (JoinHostPort (ReqHeader r ''Dial-Host'') (ReqHeader r ''Dial-Port''))]
            \<and> RespHeader w' ''Upgrade'' = Some ''ts-dial''
            \<and> RespHeader w' ''Connection'' = Some ''upgrade'')
       \<and> (Status w' \<noteq> Some 101 \<longrightarrow>
            Piped w' = None \<and> (Status w' = Some 400 \<or> Status w' = Some 502))"
  using assms
  by (auto simp: serveDial_def upgradeProto_def Let_def http_Error_Status http_Error_Piped
        WriteHeader_def SetHeader_def called_def logf_def
        split: if_splits option.splits sum.splits)

lemma ex_dial_request_simps:
  "Method (ex_dial_request u hst p) = ''POST''"
  "ReqHeader (ex_dial_request u hst p) ''Connection'' = ''upgrade''"
  "ReqHeader (ex_dial_request u hst p) ''Upgrade'' = u"
  "ReqHeader (ex_dial_request u hst p) ''Dial-Host'' = hst"
  "ReqHeader (ex_dial_request u hst p) ''Dial-Port'' = p"
  by (simp_all add: ex_dial_request_def ex_request_def)

lemma ex_writer_simps:
  "Status ex_writer = None" "Piped ex_writer = None" "Hijacker ex_writer = Some None"
  "Body ex_writer = []" "FlushErr ex_writer = False"
  by (simp_all add: ex_writer_def)

theorem serveDial_failures_before_hijack_witness:
  "Status (fst (serveDial ex_handler ex_backend ex_writer
                 (ex_dial_request ''websocket'' ''peer'' ''22'') ex_world)) = Some 400
   \<and> calls (snd (serveDial ex_handler ex_backend ex_writer
                 (ex_dial_request ''websocket'' ''peer'' ''22'') ex_world)) = []
   \<and> Status (fst (serveDial ex_handler ex_backend ex_writer
                 (ex_dial_request ''ts-dial'' ''peer'' '''') ex_world)) = Some 400
   \<and> calls (snd (serveDial ex_handler ex_backend ex_writer
                 (ex_dial_request ''ts-dial'' ''peer'' '''') ex_world)) = []
   \<and> Status (fst (serveDial ex_handler ex_backend ex_writer
                 (ex_dial_request ''ts-dial'' ''elsewhere'' ''22'') ex_world)) = Some 502
   \<and> Piped (fst (serveDial ex_handler ex_backend ex_writer
                 (ex_dial_request ''ts-dial'' ''elsewhere'' ''22'') ex_world)) = None
   \<and> Status (fst (serveDial ex_handler ex_backend ex_writer
                 (ex_dial_request ''ts-dial'' ''peer'' ''22'') ex_world)) = Some 101
   \<and> RespHeader (fst (serveDial ex_handler ex_backend ex_writer
                 (ex_dial_request ''ts-dial'' ''peer'' ''22'') ex_world)) ''Upgrade''
       = Some ''ts-dial''
   \<and> calls (snd (serveDial ex_handler ex_backend ex_writer
                 (ex_dial_request ''ts-dial'' ''peer'' ''22'') ex_world))
       = [CallUserDial ''tcp'' ''peer:22'']"
proof -
  have contains: "strings_Contains ''upgrade'' ''upgrade''"
    by (simp add: strings_Contains_def)
  have dials:
    "b_UserDial ex_backend ''tcp'' ''elsewhere:22'' = Inl ''unreachable''"
    "b_UserDial ex_backend ''tcp'' ''peer:22'' = Inr 7"
    "JoinHostPort ''peer'' ''22'' = ''peer:22''"
    "JoinHostPort ''elsewhere'' ''22'' = ''elsewhere:22''"
    by (simp_all add: ex_backend_def JoinHostPort_def)
  have ok: "Status (fst (serveDial ex_handler ex_backend ex_writer
                 (ex_dial_request ''ts-dial'' ''peer'' ''22'') ex_world)) = Some 101"
    by (simp add: serveDial_def ex_dial_request_simps ex_writer_simps contains dials
          upgradeProto_def Let_def WriteHeader_def)
  have calls0: "calls ex_world = []"
    by (simp add: ex_world_def)
  from serveDial_failures_before_hijack
         [where r = "ex_dial_request ''websocket'' ''peer'' ''22''" and h = ex_handler
            and be = ex_backend and w = ex_writer and s = ex_world,
          OF ex_dial_request_simps(1) ex_writer_simps(1) ex_writer_simps(2)
            surjective_pairing]
       serveDial_failures_before_hijack
         [where r = "ex_dial_request ''ts-dial'' ''peer'' ''''" and h = ex_handler
            and be = ex_backend and w = ex_writer and s = ex_world,
          OF ex_dial_request_simps(1) ex_writer_simps(1) ex_writer_simps(2)
            surjective_pairing]
       serveDial_failures_before_hijack
         [where r = "ex_dial_request ''ts-dial'' ''elsewhere'' ''22''" and h = ex_handler
            and be = ex_backend and w = ex_writer and s = ex_world,
          OF ex_dial_request_simps(1) ex_writer_simps(1) ex_writer_simps(2)
            surjective_pairing]
       serveDial_failures_before_hijack
         [where r = "ex_dial_request ''ts-dial'' ''peer'' ''22''" and h = ex_handler
            and be = ex_backend and w = ex_writer and s = ex_world,
          OF ex_dial_request_simps(1) ex_writer_simps(1) ex_writer_simps(2)
            surjective_pairing]
       ok
  show ?thesis
    by (simp add: ex_dial_request_simps ex_writer_simps contains dials calls0)
qed

subsection \<open>The capability gate\<close>













subsection \<open>servePrefs\<close>

lemma EditPrefs_cases:
  "EditPrefs be mp s = (Inl err, s1) \<Longrightarrow> prefs s1 = prefs s"
  "EditPrefs be mp s = (Inr p, s1) \<Longrightarrow> prefs s1 = p \<and> p = ApplyEdits (prefs s) mp"
  by (auto simp: EditPrefs_def Let_def called_def split: option.splits)

text \<open>
  C4. For a PATCH to \<open>/prefs\<close> on a fresh response writer: whenever the status is not
  2xx the backend's preferences are the ones before the call; a body that does not decode
  is answered 400 with the world unchanged; when the backend's \<open>EditPrefs\<close> fails
  validation the answer is 400 with content type \<open>application/json\<close> and the body
  \<open>resJSON\<close> of the error, the preferences unchanged; on success the answer is 200, the
  body is the new preferences and the backend holds them.
\<close>

theorem servePrefs_patch_atomic:
  assumes patch: "Method r = ''PATCH''"
    and fresh: "Status w = None"
    and res: "servePrefs h be env w r s = (w', s')"
  shows "(\<forall>c. Status w' = Some c \<and> (c < 200 \<or> 300 \<le> c) \<longrightarrow> prefs s' = prefs s)
       \<and> (\<forall>e. PermitRead h \<and> PermitWrite h \<and> decodeMaskedPrefs env (ReqBody r) = Inl e \<longrightarrow>
              Status w' = Some 400 \<and> s' = s)
       \<and> (\<forall>mp err. PermitRead h \<and> PermitWrite h \<and> decodeMaskedPrefs env (ReqBody r) = Inr mp
              \<and> fst (EditPrefs be mp s) = Inl err \<longrightarrow>
              Status w' = Some 400 \<and> RespHeader w' ''Content-Type'' = Some ''application/json''
              \<and> Body w' = Body w @ [JSON (resJSON err)] \<and> prefs s' = prefs s)
       \<and> (\<forall>mp p. PermitRead h \<and> PermitWrite h \<and> decodeMaskedPrefs env (ReqBody r) = Inr mp
              \<and> fst (EditPrefs be mp s) = Inr p \<longrightarrow>
              Status w' = Some 200 \<and> Body w' = Body w @ [JSONPrefs p]
              \<and> prefs s' = p \<and> p = ApplyEdits (prefs s) mp)"
proof (intro conjI allI impI)
  fix c assume "Status w' = Some c \<and> (c < 200 \<or> 300 \<le> c)"
  with assms show "prefs s' = prefs s"
    by (auto simp: servePrefs_def http_Error_Status Write_def WriteHeader_def Let_def
          dest: EditPrefs_cases split: if_splits sum.splits prod.splits)
next
  fix e assume "PermitRead h \<and> PermitWrite h \<and> decodeMaskedPrefs env (ReqBody r) = Inl e"
  with assms show "Status w' = Some 400" "s' = s"
    by (auto simp: servePrefs_def http_Error_Status)
next
  fix mp err
  assume a: "PermitRead h \<and> PermitWrite h \<and> decodeMaskedPrefs env (ReqBody r) = Inr mp
              \<and> fst (EditPrefs be mp s) = Inl err"
  then obtain s1 where e: "EditPrefs be mp s = (Inl err, s1)" by (cases "EditPrefs be mp s") auto
  with a assms have w': "w' = Write (JSON (resJSON err))
                      (WriteHeader 400 (SetHeader ''Content-Type'' ''application/json'' w))"
    and s': "s' = s1"
    by (auto simp: servePrefs_def)
  from w' fresh show "Status w' = Some 400"
    "RespHeader w' ''Content-Type'' = Some ''application/json''"
    "Body w' = Body w @ [JSON (resJSON err)]"
    by (simp_all add: Write_def WriteHeader_def SetHeader_def Let_def)
  from s' e show "prefs s' = prefs s" by (simp add: EditPrefs_cases)
next
  fix mp p
  assume a: "PermitRead h \<and> PermitWrite h \<and> decodeMaskedPrefs env (ReqBody r) = Inr mp
              \<and> fst (EditPrefs be mp s) = Inr p"
  then obtain s1 where e: "EditPrefs be mp s = (Inr p, s1)" by (cases "EditPrefs be mp s") auto
  with a assms have w': "w' = Write (JSONPrefs p) (SetHeader ''Content-Type'' ''application/json'' w)"
    and s': "s' = s1"
    by (auto simp: servePrefs_def)
  from w' fresh show "Status w' = Some 200" "Body w' = Body w @ [JSONPrefs p]"
    by (simp_all add: Write_def WriteHeader_def SetHeader_def Let_def)
  from s' e show "prefs s' = p" "p = ApplyEdits (prefs s) mp"
    using EditPrefs_cases(2) by blast+
qed

theorem servePrefs_patch_atomic_witness:
  "Status (fst (servePrefs ex_handler ex_backend ex_env ex_writer (ex_patch ''bogus'') ex_world))
     = Some 400
   \<and> Body (fst (servePrefs ex_handler ex_backend ex_env ex_writer (ex_patch ''bogus'') ex_world))
     = [JSON (JObject [(''Error'', JString ''invalid exit node'')])]
   \<and> prefs (snd (servePrefs ex_handler ex_backend ex_env ex_writer (ex_patch ''bogus'') ex_world))
     = prefs ex_world
   \<and> Status (fst (servePrefs ex_handler ex_backend ex_env ex_writer (ex_patch ''{'') ex_world))
     = Some 400
   \<and> snd (servePrefs ex_handler ex_backend ex_env ex_writer (ex_patch ''{'') ex_world)
     = ex_world
   \<and> Status (fst (servePrefs ex_handler ex_backend ex_env ex_writer (ex_patch ''100.64.0.9'')
                  ex_world)) = Some 200
   \<and> prefs (snd (servePrefs ex_handler ex_backend ex_env ex_writer (ex_patch ''100.64.0.9'')
                  ex_world)) ''ExitNodeIP'' = ''100.64.0.9''"
proof -
  have req: "Method (ex_patch body) = ''PATCH''" "ReqBody (ex_patch body) = body" for body
    by (simp_all add: ex_patch_def ex_request_def)
  have permits: "PermitRead ex_handler" "PermitWrite ex_handler"
    by (simp_all add: ex_handler_def)
  have decode:
    "decodeMaskedPrefs ex_env ''{'' = Inl ''unexpected EOF''"
    "decodeMaskedPrefs ex_env ''bogus''
       = Inr (\<lambda>field. if field = ''ExitNodeIP'' then Some ''bogus'' else None)"
    "decodeMaskedPrefs ex_env ''100.64.0.9''
       = Inr (\<lambda>field. if field = ''ExitNodeIP'' then Some ''100.64.0.9'' else None)"
    by (simp_all add: ex_env_def)
  have edit:
    "fst (EditPrefs ex_backend (\<lambda>field. if field = ''ExitNodeIP'' then Some ''bogus'' else None)
            ex_world) = Inl ''invalid exit node''"
    "fst (EditPrefs ex_backend
            (\<lambda>field. if field = ''ExitNodeIP'' then Some ''100.64.0.9'' else None) ex_world)
       = Inr (ApplyEdits (prefs ex_world)
               (\<lambda>field. if field = ''ExitNodeIP'' then Some ''100.64.0.9'' else None))"
    by (simp_all add: EditPrefs_def ex_backend_def ApplyEdits_def Let_def)
  have rejected:
    "Status (fst (servePrefs ex_handler ex_backend ex_env ex_writer (ex_patch ''bogus'') ex_world))
       = Some 400
     \<and> Body (fst (servePrefs ex_handler ex_backend ex_env ex_writer (ex_patch ''bogus'') ex_world))
       = [JSON (resJSON ''invalid exit node'')]
     \<and> prefs (snd (servePrefs ex_handler ex_backend ex_env ex_writer (ex_patch ''bogus'')
                    ex_world)) = prefs ex_world"
    using servePrefs_patch_atomic [where r = "ex_patch ''bogus''" and h = ex_handler and be = ex_backend
              and env = ex_env and s = ex_world and w = ex_writer,
            OF req(1) ex_writer_simps(1) surjective_pairing]
          permits decode edit
    by (simp add: req ex_writer_simps)
  have malformed:
    "Status (fst (servePrefs ex_handler ex_backend ex_env ex_writer (ex_patch ''{'') ex_world))
       = Some 400
     \<and> snd (servePrefs ex_handler ex_backend ex_env ex_writer (ex_patch ''{'') ex_world)
       = ex_world"
    using servePrefs_patch_atomic [where r = "ex_patch ''{''" and h = ex_handler and be = ex_backend
              and env = ex_env and s = ex_world and w = ex_writer,
            OF req(1) ex_writer_simps(1) surjective_pairing]
          permits decode
    by (simp add: req)
  have accepted:
    "Status (fst (servePrefs ex_handler ex_backend ex_env ex_writer (ex_patch ''100.64.0.9'')
                  ex_world)) = Some 200
     \<and> prefs (snd (servePrefs ex_handler ex_backend ex_env ex_writer (ex_patch ''100.64.0.9'')
                  ex_world)) ''ExitNodeIP'' = ''100.64.0.9''"
    using servePrefs_patch_atomic [where r = "ex_patch ''100.64.0.9''" and h = ex_handler and be = ex_backend
              and env = ex_env and s = ex_world and w = ex_writer,
            OF req(1) ex_writer_simps(1) surjective_pairing]
          permits decode edit
    by (simp add: req ApplyEdits_def)
  from rejected malformed accepted show ?thesis
    by (simp add: resJSON_def)
qed

subsection \<open>serveBugReport\<close>

lemma hextable_nth: "i < 16 \<Longrightarrow> hextable ! i \<in> set hextable"
proof -
  assume "i < 16"
  moreover have "length hextable = 16" by (simp add: hextable_def)
  ultimately have "i < length hextable" by simp
  then show ?thesis by (rule nth_mem)
qed

lemma high_nibble: "unat (drop_bit 4 (v :: 8 word)) < 16"
proof -
  have "unat v < 256" using unsigned_less [of v, where 'a = nat] by simp
  then show ?thesis by (simp add: drop_bit_eq_div unat_div)
qed

lemma low_nibble: "unat (and (v :: 8 word) 0x0f) < 16"
proof -
  have "unat (and v 0x0f) \<le> unat (0x0f :: 8 word)"
    by (rule word_and_le1 [THEN word_le_nat_alt [THEN iffD1]])
  then show ?thesis by simp
qed

lemma hex_EncodeToString_length: "length (hex_EncodeToString src) = 2 * length src"
  by (induction src) (simp_all add: hex_EncodeToString_def)

lemma hex_EncodeToString_digits: "set (hex_EncodeToString src) \<subseteq> set hextable"
  by (induction src)
     (simp_all add: hex_EncodeToString_def hextable_nth high_nibble low_nibble)

lemma ex_randHex: "fst (randHex 8 ex_world) = ''0a1a2a3a4a5a6a7a''"
  by (simp add: randHex_def ex_world_def hex_EncodeToString_def hextable_def upt_rec
        drop_bit_eq_div)

lemma ex_Format: "Format_20060102150405Z (clock ex_world) = ''20220905070809Z''"
  by (simp add: Format_20060102150405Z_def ex_world_def appendInt_def)

text \<open>
  C8 (as amended). For a \<open>/bugreport\<close> request from a connection that may read, on a
  fresh response writer: the handler logs the marker and answers 200, content type
  \<open>text/plain\<close>, with the marker followed by a newline as the body. The marker is
  \<open>BUG-\<close>, the backend log id, \<open>-\<close>, the UTC time in the layout \<open>20060102150405Z\<close>,
  \<open>-\<close> and the hex encoding of 8 random bytes, which is 16 hex digits. A non-empty note
  is logged after the marker.
\<close>

theorem serveBugReport_marker:
  assumes "PermitRead h"
    and "Status w = None"
    and "serveBugReport h w r s = (w', s')"
    and "hx = hex_EncodeToString (map (entropy s) [0..<8])"
    and "marker = ''BUG-'' @ backendLogID h @ ''-'' @ Format_20060102150405Z (clock s) @ ''-'' @ hx"
  shows "length hx = 16 \<and> set hx \<subseteq> set ''0123456789abcdef''
       \<and> Status w' = Some 200
       \<and> RespHeader w' ''Content-Type'' = Some ''text/plain''
       \<and> Body w' = Body w @ [Txt (marker @ nl)]
       \<and> logs s' = logs s @ [''user bugreport: '' @ marker]
                      @ (if FormValue r ''note'' = '''' then []
                         else [''user bugreport note: '' @ FormValue r ''note''])"
proof (intro conjI)
  show "length hx = 16" using assms(4) by (simp add: hex_EncodeToString_length)
  show "set hx \<subseteq> set ''0123456789abcdef''"
    using assms(4) hex_EncodeToString_digits [of "map (entropy s) [0..<8]"]
    by (simp only: hextable_def)
  show "Status w' = Some 200" "RespHeader w' ''Content-Type'' = Some ''text/plain''"
    "Body w' = Body w @ [Txt (marker @ nl)]"
    using assms
    by (auto simp: serveBugReport_def randHex_def Let_def Write_def WriteHeader_def SetHeader_def)
  show "logs s' = logs s @ [''user bugreport: '' @ marker]
                      @ (if FormValue r ''note'' = '''' then []
                         else [''user bugreport note: '' @ FormValue r ''note''])"
    using assms
    by (auto simp: serveBugReport_def randHex_def Let_def logf_def)
qed

theorem serveBugReport_marker_witness:
  "PermitRead ex_handler
   \<and> Body (fst (serveBugReport ex_handler ex_writer ex_bugreport_request ex_world))
       = [Txt (''BUG-abc123-20220905070809Z-0a1a2a3a4a5a6a7a'' @ nl)]
   \<and> logs (snd (serveBugReport ex_handler ex_writer ex_bugreport_request ex_world))
       = [''user bugreport: BUG-abc123-20220905070809Z-0a1a2a3a4a5a6a7a'',
          ''user bugreport note: dns is down'']"
proof -
  have read: "PermitRead ex_handler" and logid: "backendLogID ex_handler = ''abc123''"
    by (simp_all add: ex_handler_def)
  have hx: "hex_EncodeToString (map (entropy ex_world) [0..<8]) = ''0a1a2a3a4a5a6a7a''"
    using ex_randHex by (simp add: randHex_def)
  have noted: "FormValue ex_bugreport_request ''note'' = ''dns is down''"
    by (simp add: ex_bugreport_request_def ex_request_def)
  have logs0: "logs ex_world = []" by (simp add: ex_world_def)
  from serveBugReport_marker [where h = ex_handler and w = ex_writer
         and r = ex_bugreport_request and s = ex_world,
         OF read ex_writer_simps(1) surjective_pairing refl refl]
  show ?thesis
    by (simp add: read logid hx ex_Format noted logs0 ex_writer_simps)
qed

text \<open>
  C8 as stated fails on the length of the random suffix: \<open>randHex 8\<close> encodes 8 bytes,
  so the marker ends in 16 hex digits, not 8.
\<close>

theorem serveBugReport_marker_counterexample:
  "PermitRead ex_handler
   \<and> Body (fst (serveBugReport ex_handler ex_writer (ex_get ''/localapi/v0/bugreport'') ex_world))
       = [Txt (''BUG-abc123-20220905070809Z-'' @ ''0a1a2a3a4a5a6a7a'' @ nl)]
   \<and> length ''0a1a2a3a4a5a6a7a'' \<noteq> (8::nat)"
proof -
  have "fst (serveBugReport ex_handler ex_writer (ex_get ''/localapi/v0/bugreport'') ex_world)
      = Write (Txt (''BUG-'' @ backendLogID ex_handler @ ''-''
                     @ Format_20060102150405Z (clock ex_world) @ ''-''
                     @ fst (randHex 8 ex_world) @ nl))
          (SetHeader ''Content-Type'' ''text/plain'' ex_writer)"
    by (simp add: serveBugReport_def ex_handler_def Let_def split_beta)
  then show ?thesis
    by (simp add: ex_randHex ex_Format ex_handler_def Write_def WriteHeader_def SetHeader_def
          ex_writer_def)
qed

subsection \<open>serveUploadClientMetrics\<close>

lemma Metric_Add_metrics [simp]: "metrics (Metric_Add h v s) = metrics s"
  by (simp add: Metric_Add_def split: option.splits)


lemma uploadLoop_accept:
  assumes "\<not> rejected s m"
  shows "uploadLoop w (m # ms) s = uploadLoop w ms (entryEffect m s)"
proof (cases "metrics s (Name m)")
  case (Some h)
  then show ?thesis
    by (simp add: entryEffect_def Metric_Add_def split: option.splits)
next
  case None
  with assms have fresh: "\<not> HasPublished (Name m) s"
    and kind: "Type m = ''counter'' \<or> Type m = ''gauge''"
    by (auto simp: rejected_def)
  from kind show ?thesis
  proof
    assume "Type m = ''counter''"
    with None fresh show ?thesis
      by (simp add: entryEffect_def NewCounter_def Metric_Add_def Let_def)
  next
    assume "Type m = ''gauge''"
    with None fresh show ?thesis
      by (simp add: entryEffect_def NewGauge_def Metric_Add_def Let_def)
  qed
qed

lemma uploadLoop_reject:
  assumes "rejected s m"
  shows "uploadLoop w (m # ms) s = (Inl (http_Error w (rejectMessage s m) 400), s)"
  using assms by (auto simp: rejected_def rejectMessage_def)

lemma uploadLoop_accepted:
  "allAccepted s xs \<Longrightarrow> uploadLoop w (xs @ ys) s = uploadLoop w ys (entryEffects xs s)"
proof (induction xs arbitrary: s)
  case Nil
  then show ?case by simp
next
  case (Cons m xs)
  then have "\<not> rejected s m" and "allAccepted (entryEffect m s) xs" by simp_all
  with Cons.IH [of "entryEffect m s"] uploadLoop_accept [of s m w "xs @ ys"]
  show ?case by simp
qed

lemma accepted_or_rejected:
  "allAccepted s ms
   \<or> (\<exists>xs m ys. ms = xs @ m # ys \<and> allAccepted s xs \<and> rejected (entryEffects xs s) m)"
proof (induction ms arbitrary: s)
  case Nil
  then show ?case by simp
next
  case (Cons m ms)
  show ?case
  proof (cases "rejected s m")
    case True
    then have "m # ms = [] @ m # ms \<and> allAccepted s [] \<and> rejected (entryEffects [] s) m"
      by simp
    then show ?thesis by blast
  next
    case False
    from Cons.IH [of "entryEffect m s"] show ?thesis
    proof
      assume "allAccepted (entryEffect m s) ms"
      with False show ?thesis by simp
    next
      assume "\<exists>xs m' ys. ms = xs @ m' # ys \<and> allAccepted (entryEffect m s) xs
                \<and> rejected (entryEffects xs (entryEffect m s)) m'"
      then obtain xs m' ys where
        *: "ms = xs @ m' # ys" "allAccepted (entryEffect m s) xs"
           "rejected (entryEffects xs (entryEffect m s)) m'" by blast
      with False have "m # ms = (m # xs) @ m' # ys \<and> allAccepted s (m # xs)
                \<and> rejected (entryEffects (m # xs) s) m'" by simp
      then show ?thesis by blast
    qed
  qed
qed

lemma ex_upload_simps:
  "Method (ex_upload body) = ''POST''" "ReqBody (ex_upload body) = body"
  by (simp_all add: ex_upload_def ex_request_def)

text \<open>
  C2 (as amended). A POST to \<open>/upload-client-metrics\<close> whose body decodes to an array is
  processed entry by entry, in order, and is not atomic. An entry is rejected when its
  name is not in the table \<open>metrics\<close> and is published already or its type is neither
  \<open>counter\<close> nor \<open>gauge\<close>. If no entry is rejected, the answer is 200 with the body
  \<open>{}\<close> and the world has the effect of every entry: each new name entered in the table
  and published with its kind and value, each known name's value added. If the array is
  \<open>xs @ m # ys\<close> with no entry of \<open>xs\<close> rejected and \<open>m\<close> rejected, the answer is 400 with
  the message for \<open>m\<close>, and the world has the effects of exactly the entries \<open>xs\<close>: they
  stay registered and added, \<open>m\<close> and the entries after it are not applied. Every array is
  of one of these two forms.
\<close>

theorem upload_stops_at_first_rejected:
  assumes "Method r = ''POST''"
    and "decodeClientMetrics env (ReqBody r) = Some ms"
    and "Status w = None"
  shows "(allAccepted s ms \<longrightarrow>
            serveUploadClientMetrics env w r s
              = (Write (JSON (JObject [])) (SetHeader ''Content-Type'' ''application/json'' w),
                 entryEffects ms s)
            \<and> Status (fst (serveUploadClientMetrics env w r s)) = Some 200)
       \<and> (\<forall>xs m ys. ms = xs @ m # ys \<and> allAccepted s xs \<and> rejected (entryEffects xs s) m \<longrightarrow>
            serveUploadClientMetrics env w r s
              = (http_Error w (rejectMessage (entryEffects xs s) m) 400, entryEffects xs s)
            \<and> Status (fst (serveUploadClientMetrics env w r s)) = Some 400)
       \<and> (allAccepted s ms
            \<or> (\<exists>xs m ys. ms = xs @ m # ys \<and> allAccepted s xs
                  \<and> rejected (entryEffects xs s) m))"
proof (intro conjI allI impI)
  assume "allAccepted s ms"
  from uploadLoop_accepted [OF this, of w "[]"]
  have "uploadLoop w ms s = (Inr (), entryEffects ms s)" by simp
  with assms
  show "serveUploadClientMetrics env w r s
          = (Write (JSON (JObject [])) (SetHeader ''Content-Type'' ''application/json'' w),
             entryEffects ms s)"
    by (simp add: serveUploadClientMetrics_def)
  with assms(3) show "Status (fst (serveUploadClientMetrics env w r s)) = Some 200"
    by (simp add: Write_def WriteHeader_def Let_def)
next
  fix xs m ys
  assume a: "ms = xs @ m # ys \<and> allAccepted s xs \<and> rejected (entryEffects xs s) m"
  then have "uploadLoop w ms s = uploadLoop w (m # ys) (entryEffects xs s)"
    by (simp add: uploadLoop_accepted)
  also have "\<dots> = (Inl (http_Error w (rejectMessage (entryEffects xs s) m) 400),
                     entryEffects xs s)"
  proof (rule uploadLoop_reject)
    from a show "rejected (entryEffects xs s) m" by blast
  qed
  finally show "serveUploadClientMetrics env w r s
          = (http_Error w (rejectMessage (entryEffects xs s) m) 400, entryEffects xs s)"
    using assms by (simp add: serveUploadClientMetrics_def)
  with assms(3) show "Status (fst (serveUploadClientMetrics env w r s)) = Some 400"
    by (simp add: http_Error_Status)
next
  show "allAccepted s ms
        \<or> (\<exists>xs m ys. ms = xs @ m # ys \<and> allAccepted s xs \<and> rejected (entryEffects xs s) m)"
    by (rule accepted_or_rejected)
qed

lemma ex_upload_two:
  "serveUploadClientMetrics ex_env ex_writer (ex_upload ''two'') ex_world
     = (http_Error ex_writer ''Unknown metric type histogram'' 400,
        ex_world\<lparr>metrics := (metrics ex_world)(''gui_opens'' \<mapsto> ''gui_opens''),
                 published := (published ex_world)
                   (''gui_opens'' \<mapsto> \<lparr>Kind = Counter, Val = 1\<rparr>)\<rparr>)"
  by (simp add: serveUploadClientMetrics_def ex_upload_simps ex_env_def ex_metrics_body_def
        ex_world_def HasPublished_def NewCounter_def Metric_Add_def Let_def)

theorem upload_stops_at_first_rejected_witness:
  "Status (fst (serveUploadClientMetrics ex_env ex_writer (ex_upload ''two'') ex_world))
     = Some 400
   \<and> metrics (snd (serveUploadClientMetrics ex_env ex_writer (ex_upload ''two'') ex_world))
       ''gui_opens'' = Some ''gui_opens''
   \<and> published (snd (serveUploadClientMetrics ex_env ex_writer (ex_upload ''two'') ex_world))
       ''gui_opens'' = Some \<lparr>Kind = Counter, Val = 1\<rparr>
   \<and> published (snd (serveUploadClientMetrics ex_env ex_writer (ex_upload ''two'') ex_world))
       ''gui_latency'' = None
   \<and> Status (fst (serveUploadClientMetrics ex_env ex_writer (ex_upload ''retyped'') ex_world))
       = Some 200
   \<and> published (snd (serveUploadClientMetrics ex_env ex_writer (ex_upload ''retyped'')
                       ex_world)) ''gui_opens'' = Some \<lparr>Kind = Gauge, Val = 3\<rparr>"
proof -
  let ?opens = "\<lparr>Name = ''gui_opens'', Type = ''counter'', Value = 1\<rparr>"
  let ?latency = "\<lparr>Name = ''gui_latency'', Type = ''histogram'', Value = 2\<rparr>"
  let ?retyped = "\<lparr>Name = ''gui_opens'', Type = ''gauge'', Value = 3\<rparr>"
  have decode:
    "decodeClientMetrics ex_env (ReqBody (ex_upload ''two'')) = Some ([?opens] @ ?latency # [])"
    "decodeClientMetrics ex_env (ReqBody (ex_upload ''retyped'')) = Some [?retyped]"
    by (simp_all add: ex_upload_simps ex_env_def ex_metrics_body_def)
  have tables: "metrics ex_world = (\<lambda>name. None)" "published ex_world = (\<lambda>name. None)"
    by (simp_all add: ex_world_def)
  have accepted: "allAccepted ex_world [?opens]" "allAccepted ex_world [?retyped]"
    by (simp_all add: rejected_def HasPublished_def tables)
  have effect:
    "entryEffects [?opens] ex_world
       = ex_world\<lparr>metrics := (metrics ex_world)(''gui_opens'' \<mapsto> ''gui_opens''),
                  published := (published ex_world)
                    (''gui_opens'' \<mapsto> \<lparr>Kind = Counter, Val = 1\<rparr>)\<rparr>"
    "entryEffects [?retyped] ex_world
       = ex_world\<lparr>metrics := (metrics ex_world)(''gui_opens'' \<mapsto> ''gui_opens''),
                  published := (published ex_world)
                    (''gui_opens'' \<mapsto> \<lparr>Kind = Gauge, Val = 3\<rparr>)\<rparr>"
    by (simp_all add: entryEffect_def tables)
  have refused: "rejected (entryEffects [?opens] ex_world) ?latency"
    by (simp add: entryEffect_def rejected_def HasPublished_def tables)
  let ?two = "serveUploadClientMetrics ex_env ex_writer (ex_upload ''two'') ex_world"
  let ?again = "serveUploadClientMetrics ex_env ex_writer (ex_upload ''retyped'') ex_world"
  have parts: "[?opens] @ ?latency # [] = [?opens] @ ?latency # []
               \<and> allAccepted ex_world [?opens]
               \<and> rejected (entryEffects [?opens] ex_world) ?latency"
    by (intro conjI refl accepted(1) refused)
  have both:
    "?two = (http_Error ex_writer (rejectMessage (entryEffects [?opens] ex_world) ?latency) 400,
             entryEffects [?opens] ex_world)
     \<and> Status (fst ?two) = Some 400"
    by (rule upload_stops_at_first_rejected
               [where r = "ex_upload ''two''" and env = ex_env and w = ex_writer
                  and s = ex_world,
                OF ex_upload_simps(1) decode(1) ex_writer_simps(1),
                THEN conjunct2, THEN conjunct1, THEN spec, THEN spec, THEN spec, THEN mp,
                OF parts])
  have whole:
    "?again = (Write (JSON (JObject []))
                 (SetHeader ''Content-Type'' ''application/json'' ex_writer),
               entryEffects [?retyped] ex_world)
     \<and> Status (fst ?again) = Some 200"
    by (rule upload_stops_at_first_rejected
               [where r = "ex_upload ''retyped''" and env = ex_env and w = ex_writer
                  and s = ex_world,
                OF ex_upload_simps(1) decode(2) ex_writer_simps(1),
                THEN conjunct1, THEN mp, OF accepted(2)])
  have "snd ?two = snd (http_Error ex_writer
                          (rejectMessage (entryEffects [?opens] ex_world) ?latency) 400,
                        entryEffects [?opens] ex_world)"
    by (rule arg_cong [where f = snd, OF both [THEN conjunct1]])
  then have stopped: "snd ?two = entryEffects [?opens] ex_world"
    by (simp only: snd_conv)
  have "snd ?again = snd (Write (JSON (JObject []))
                            (SetHeader ''Content-Type'' ''application/json'' ex_writer),
                          entryEffects [?retyped] ex_world)"
    by (rule arg_cong [where f = snd, OF whole [THEN conjunct1]])
  then have ran: "snd ?again = entryEffects [?retyped] ex_world"
    by (simp only: snd_conv)
  show ?thesis
    by (simp add: both [THEN conjunct2] whole [THEN conjunct2] stopped ran entryEffect_def tables)
qed

text \<open>
  C2 as stated fails: the upload of a counter followed by an entry of type \<open>histogram\<close> is
  answered 400, and the counter named by the first entry has been created with its value.
\<close>

theorem upload_stops_at_first_rejected_counterexample:
  "Status (fst (serveUploadClientMetrics ex_env ex_writer (ex_upload ''two'') ex_world))
     = Some 400
   \<and> published ex_world ''gui_opens'' = None
   \<and> published (snd (serveUploadClientMetrics ex_env ex_writer (ex_upload ''two'') ex_world))
       ''gui_opens'' = Some \<lparr>Kind = Counter, Val = 1\<rparr>"
  by (simp add: ex_upload_two http_Error_Status ex_writer_simps) (simp add: ex_world_def)




section \<open>Properties of the Windows DNS configurator\<close>

subsection \<open>Idempotence\<close>

lemma same_env_refl [simp]: "same_env m m"
  by (simp add: same_env_def)

lemma same_env_trans: "same_env x y \<Longrightarrow> same_env y z \<Longrightarrow> same_env x z"
  by (simp add: same_env_def)

lemma same_env_sym: "same_env x y \<Longrightarrow> same_env y x"
  by (simp add: same_env_def)

lemma same_env_trace [simp]: "same_env m (m2\<lparr>trace := t\<rparr>) = same_env m m2"
  "same_env (m\<lparr>trace := t\<rparr>) m2 = same_env m m2"
  by (simp_all add: same_env_def)

lemma regValue_trace [simp]: "regValue (m\<lparr>trace := t\<rparr>) = regValue m"
  by (simp add: regValue_def fun_eq_iff)

lemma same_env_key: "same_env m m2 \<Longrightarrow> (registry m2 key = None) = (registry m key = None)"
  by (simp add: same_env_def)

lemma overwrites_SetValue: "overwrites (SetValue key name v)"
  unfolding overwrites_def
proof (intro conjI allI impI)
  fix m show "same_env m (snd (SetValue key name v m))"
    by (auto simp: SetValue_def same_env_def split: option.splits)
next
  fix m m2 assume e: "same_env m m2"
  then have f: "reg_fails m2 = reg_fails m" by (simp add: same_env_def)
  from e have k: "(registry m2 key = None) = (registry m key = None)" by (rule same_env_key)
  show "fst (SetValue key name v m2) = fst (SetValue key name v m)"
    using f k by (auto simp: SetValue_def split: option.splits)
  show "nrptDB (snd (SetValue key name v m2)) = nrptDB (snd (SetValue key name v m))
        \<or> nrptDB (snd (SetValue key name v m2)) = nrptDB m2
          \<and> nrptDB (snd (SetValue key name v m)) = nrptDB m"
    by (auto simp: SetValue_def split: option.splits)
  fix k' n'
  show "regValue (snd (SetValue key name v m2)) k' n' = regValue (snd (SetValue key name v m)) k' n'
        \<or> regValue (snd (SetValue key name v m2)) k' n' = regValue m2 k' n'
          \<and> regValue (snd (SetValue key name v m)) k' n' = regValue m k' n'"
    using f k by (auto simp: SetValue_def regValue_def split: option.splits)
qed

lemma overwrites_delValue: "overwrites (delValue key name)"
  unfolding overwrites_def
proof (intro conjI allI impI)
  fix m show "same_env m (snd (delValue key name m))"
    by (auto simp: delValue_def same_env_def split: option.splits)
next
  fix m m2 assume e: "same_env m m2"
  then have f: "reg_fails m2 = reg_fails m" by (simp add: same_env_def)
  from e have k: "(registry m2 key = None) = (registry m key = None)" by (rule same_env_key)
  show "fst (delValue key name m2) = fst (delValue key name m)"
    using f k by (auto simp: delValue_def split: option.splits)
  show "nrptDB (snd (delValue key name m2)) = nrptDB (snd (delValue key name m))
        \<or> nrptDB (snd (delValue key name m2)) = nrptDB m2
          \<and> nrptDB (snd (delValue key name m)) = nrptDB m"
    by (auto simp: delValue_def split: option.splits)
  fix k' n'
  show "regValue (snd (delValue key name m2)) k' n' = regValue (snd (delValue key name m)) k' n'
        \<or> regValue (snd (delValue key name m2)) k' n' = regValue m2 k' n'
          \<and> regValue (snd (delValue key name m)) k' n' = regValue m k' n'"
    using f k by (auto simp: delValue_def regValue_def split: option.splits)
qed

lemma overwrites_DelAllRuleKeys: "overwrites DelAllRuleKeys"
  unfolding overwrites_def
  by (auto simp: DelAllRuleKeys_def same_env_def regValue_def split: option.splits)

lemma overwrites_WriteSplitDNSConfig: "overwrites (WriteSplitDNSConfig servers domains)"
  unfolding overwrites_def
  by (auto simp: WriteSplitDNSConfig_def same_env_def regValue_def split: option.splits)

lemma overwrites_return: "overwrites (\<lambda>m. (e, m))"
  by (simp add: overwrites_def)

lemma overwritesD:
  assumes "overwrites F"
  shows "same_env m (snd (F m))"
    and "same_env m m2 \<Longrightarrow> fst (F m2) = fst (F m)"
    and "same_env m m2 \<Longrightarrow>
           regValue (snd (F m2)) key name = regValue (snd (F m)) key name
           \<or> regValue (snd (F m2)) key name = regValue m2 key name
             \<and> regValue (snd (F m)) key name = regValue m key name"
    and "same_env m m2 \<Longrightarrow>
           nrptDB (snd (F m2)) = nrptDB (snd (F m))
           \<or> nrptDB (snd (F m2)) = nrptDB m2 \<and> nrptDB (snd (F m)) = nrptDB m"
  using assms unfolding overwrites_def by blast+

lemma same_env_step:
  assumes "overwrites F" "same_env m m2"
  shows "same_env (snd (F m)) (snd (F m2))"
proof -
  have "same_env (snd (F m)) m" using overwritesD(1) [OF assms(1)] by (rule same_env_sym)
  moreover have "same_env m2 (snd (F m2))" by (rule overwritesD(1) [OF assms(1)])
  ultimately show ?thesis using assms(2) by (blast intro: same_env_trans)
qed

lemma overwrites_andThen:
  assumes F: "overwrites F" and G: "overwrites G"
  shows "overwrites (\<lambda>m. andThen (F m) G)"
  unfolding overwrites_def
proof (intro conjI allI impI)
  fix m
  show "same_env m (snd (andThen (F m) G))"
  proof (cases "F m")
    case (Pair e m1)
    with overwritesD(1) [OF F, of m] have 1: "same_env m m1" by simp
    show ?thesis
    proof (cases e)
      case None
      with Pair 1 overwritesD(1) [OF G, of m1] show ?thesis
        by (auto simp: andThen_def intro: same_env_trans)
    next
      case (Some err)
      with Pair 1 show ?thesis by (simp add: andThen_def)
    qed
  qed
next
  fix m m2 assume e: "same_env m m2"
  obtain e1 m1 where r1: "F m = (e1, m1)" by (cases "F m")
  obtain e2 m1' where r2: "F m2 = (e2, m1')" by (cases "F m2")
  from overwritesD(2) [OF F e] r1 r2 have ee: "e2 = e1" by simp
  from same_env_step [OF F e] r1 r2 have e': "same_env m1 m1'" by simp
  show "fst (andThen (F m2) G) = fst (andThen (F m) G)"
    using r1 r2 ee overwritesD(2) [OF G e'] by (cases e1) (simp_all add: andThen_def)
  show "nrptDB (snd (andThen (F m2) G)) = nrptDB (snd (andThen (F m) G))
        \<or> nrptDB (snd (andThen (F m2) G)) = nrptDB m2
          \<and> nrptDB (snd (andThen (F m) G)) = nrptDB m"
    using r1 r2 ee overwritesD(4) [OF F e] overwritesD(4) [OF G e']
    by (cases e1) (auto simp: andThen_def)
  fix key name
  show "regValue (snd (andThen (F m2) G)) key name = regValue (snd (andThen (F m) G)) key name
        \<or> regValue (snd (andThen (F m2) G)) key name = regValue m2 key name
          \<and> regValue (snd (andThen (F m) G)) key name = regValue m key name"
    using r1 r2 ee overwritesD(3) [OF F e, of key name] overwritesD(3) [OF G e', of key name]
    by (cases e1) (auto simp: andThen_def)
qed

lemma overwrites_select:
  assumes sel: "\<And>m m2. same_env m m2 \<Longrightarrow> sel m2 = sel m"
    and F: "\<And>x. overwrites (F x)"
  shows "overwrites (\<lambda>m. F (sel m) m)"
  unfolding overwrites_def
proof (intro conjI allI impI)
  fix m show "same_env m (snd (F (sel m) m))" by (rule overwritesD(1) [OF F])
next
  fix m m2 assume e: "same_env m m2"
  then have s: "sel m2 = sel m" by (rule sel)
  show "fst (F (sel m2) m2) = fst (F (sel m) m)"
    using overwritesD(2) [OF F e] s by simp
  show "nrptDB (snd (F (sel m2) m2)) = nrptDB (snd (F (sel m) m))
        \<or> nrptDB (snd (F (sel m2) m2)) = nrptDB m2 \<and> nrptDB (snd (F (sel m) m)) = nrptDB m"
    using overwritesD(4) [OF F e] s by simp
  fix key name
  show "regValue (snd (F (sel m2) m2)) key name = regValue (snd (F (sel m) m)) key name
        \<or> regValue (snd (F (sel m2) m2)) key name = regValue m2 key name
          \<and> regValue (snd (F (sel m) m)) key name = regValue m key name"
    using overwritesD(3) [OF F e] s by simp
qed

lemma openKey_env: "same_env m m2 \<Longrightarrow> openKey m2 (ifPath m2 base) = openKey m (ifPath m base)"
proof -
  assume e: "same_env m m2"
  then have p: "ifPath m2 base = ifPath m base" by (simp add: ifPath_def same_env_def)
  from same_env_key [OF e, of "ifPath m base"] show ?thesis
    by (auto simp: openKey_def p split: option.splits)
qed

lemma overwrites_openKey:
  assumes "\<And>key. overwrites (F key)"
  shows "overwrites (\<lambda>m. case openKey m (ifPath m base) of
                            Inl err \<Rightarrow> (Some err, m) | Inr key \<Rightarrow> F key m)"
proof -
  have "overwrites (case x of Inl err \<Rightarrow> (\<lambda>m. (Some err, m)) | Inr key \<Rightarrow> F key)" for x
    by (cases x) (simp_all add: overwrites_return assms)
  from overwrites_select [where sel = "\<lambda>m. openKey m (ifPath m base)"
         and F = "\<lambda>x. case x of Inl err \<Rightarrow> (\<lambda>m. (Some err, m)) | Inr key \<Rightarrow> F key",
         OF openKey_env this]
  have "overwrites (\<lambda>m. (case openKey m (ifPath m base) of
                            Inl err \<Rightarrow> (\<lambda>m. (Some err, m)) | Inr key \<Rightarrow> F key) m)" .
  moreover have "(\<lambda>m. (case openKey m (ifPath m base) of
                            Inl err \<Rightarrow> (\<lambda>m. (Some err, m)) | Inr key \<Rightarrow> F key) m)
               = (\<lambda>m. case openKey m (ifPath m base) of
                            Inl err \<Rightarrow> (Some err, m) | Inr key \<Rightarrow> F key m)"
    by (auto simp: fun_eq_iff split: sum.splits)
  ultimately show ?thesis by simp
qed

lemma overwrites_if: "overwrites F \<Longrightarrow> overwrites G \<Longrightarrow> overwrites (\<lambda>m. if c then F m else G m)"
  by (cases c) simp_all

lemma overwrites_setPrimaryDNS: "overwrites (setPrimaryDNS resolvers domains)"
  unfolding setPrimaryDNS_def Let_def
  by (intro overwrites_openKey overwrites_andThen overwrites_if overwrites_SetValue
        overwrites_delValue)

lemma overwrites_disableDynamicUpdates: "overwrites disableDynamicUpdates"
  unfolding disableDynamicUpdates_def
  by (intro overwrites_openKey overwrites_andThen overwrites_SetValue)

lemma overwrites_traced:
  assumes "overwrites F"
  shows "overwrites (\<lambda>m. case F m of (err, m1) \<Rightarrow> (err, m1\<lparr>trace := t err m1\<rparr>))"
  unfolding overwrites_def
proof (intro conjI allI impI)
  fix m show "same_env m (snd (case F m of (err, m1) \<Rightarrow> (err, m1\<lparr>trace := t err m1\<rparr>)))"
    using overwritesD(1) [OF assms, of m] by (simp add: split_beta)
next
  fix m m2 assume e: "same_env m m2"
  show "fst (case F m2 of (err, m1) \<Rightarrow> (err, m1\<lparr>trace := t err m1\<rparr>))
      = fst (case F m of (err, m1) \<Rightarrow> (err, m1\<lparr>trace := t err m1\<rparr>))"
    using overwritesD(2) [OF assms e] by (simp add: split_beta)
  show "nrptDB (snd (case F m2 of (err, m1) \<Rightarrow> (err, m1\<lparr>trace := t err m1\<rparr>)))
          = nrptDB (snd (case F m of (err, m1) \<Rightarrow> (err, m1\<lparr>trace := t err m1\<rparr>)))
        \<or> nrptDB (snd (case F m2 of (err, m1) \<Rightarrow> (err, m1\<lparr>trace := t err m1\<rparr>))) = nrptDB m2
          \<and> nrptDB (snd (case F m of (err, m1) \<Rightarrow> (err, m1\<lparr>trace := t err m1\<rparr>))) = nrptDB m"
    using overwritesD(4) [OF assms e] by (simp add: split_beta)
  fix key name
  show "regValue (snd (case F m2 of (err, m1) \<Rightarrow> (err, m1\<lparr>trace := t err m1\<rparr>))) key name
          = regValue (snd (case F m of (err, m1) \<Rightarrow> (err, m1\<lparr>trace := t err m1\<rparr>))) key name
        \<or> regValue (snd (case F m2 of (err, m1) \<Rightarrow> (err, m1\<lparr>trace := t err m1\<rparr>))) key name
            = regValue m2 key name
          \<and> regValue (snd (case F m of (err, m1) \<Rightarrow> (err, m1\<lparr>trace := t err m1\<rparr>))) key name
            = regValue m key name"
    using overwritesD(3) [OF assms e, of key name] by (simp add: split_beta)
qed

lemma overwrites_swallowed:
  assumes "overwrites F"
  shows "overwrites (\<lambda>m. (None, snd (F m)))"
  unfolding overwrites_def
  using overwritesD [OF assms] by simp

lemma nrptDB_env: "same_env m m2 \<Longrightarrow> (nrptDB m2 = None) = (nrptDB m = None)"
  by (simp add: same_env_def)

lemma overwrites_setSplitDNS: "overwrites (setSplitDNS resolvers domains)"
proof -
  let ?rs = "case resolvers of None \<Rightarrow> [] | Some rs \<Rightarrow> rs"
  let ?inner = "\<lambda>m. if length ?rs = 0 then DelAllRuleKeys m
                     else WriteSplitDNSConfig (map String ?rs) domains m"
  let ?there = "\<lambda>m. case ?inner m of (err, m1) \<Rightarrow> (err, m1\<lparr>trace := trace m1 @ [Refresh]\<rparr>)"
  let ?absent = "\<lambda>m. (if resolvers = None then None
                        else Some ''Split DNS unsupported on this Windows version'', m)"
  have inner: "overwrites ?inner"
    by (intro overwrites_if overwrites_DelAllRuleKeys overwrites_WriteSplitDNSConfig)
  have there: "overwrites ?there" by (rule overwrites_traced [OF inner])
  have absent: "overwrites ?absent" by (rule overwrites_return)
  have "overwrites (if x then ?absent else ?there)" for x
    using there absent by (cases x) (simp_all only: if_True if_False)
  from overwrites_select [where sel = "\<lambda>m. nrptDB m = None"
         and F = "\<lambda>x. if x then ?absent else ?there", OF nrptDB_env this]
  have "overwrites (\<lambda>m. (if nrptDB m = None then ?absent else ?there) m)" .
  moreover have "setSplitDNS resolvers domains
               = (\<lambda>m. (if nrptDB m = None then ?absent else ?there) m)"
    by (auto simp: setSplitDNS_def fun_eq_iff Let_def split: option.splits)
  ultimately show ?thesis by simp
qed

lemma overwrites_SetDNS: "overwrites (SetDNS configureWSL cfg)"
proof -
  let ?p1 = "\<lambda>m. case disableDynamicUpdates m of
                    (err, m') \<Rightarrow>
                      (err, m'\<lparr>trace := (case err of
                                 Some e \<Rightarrow> trace m' @ [Log (''disableDynamicUpdates error: '' @ e)]
                               | None \<Rightarrow> trace m')\<rparr>)"
  let ?primary = "\<lambda>m. andThen (setSplitDNS None [] m)
                         (\<lambda>m. setPrimaryDNS (Nameservers cfg) (SearchDomains cfg) m)"
  let ?split = "\<lambda>m. andThen (setSplitDNS (Some (Nameservers cfg)) (MatchDomains cfg) m)
                       (\<lambda>m. setPrimaryDNS [] (SearchDomains cfg) m)"
  let ?win7 = "\<lambda>m. (Some ''cannot set per-domain resolvers on Windows 7'', m)"
  let ?configured = "\<lambda>m. if length (MatchDomains cfg) = 0 then ?primary m
                         else (if nrptDB m = None then ?win7 else ?split) m"
  let ?all = "\<lambda>m. andThen (None, snd (?p1 m)) ?configured"
  let ?tasks = "\<lambda>err m2. case err of
                   Some e \<Rightarrow> trace m2
                 | None \<Rightarrow> trace m2 @ [Go ''ipconfig /registerdns; ipconfig /flushdns'']
                             @ (if configureWSL then [Go ''wslManager.SetDNS''] else [])"
  have p1: "overwrites (\<lambda>m. (None, snd (?p1 m)))"
    by (intro overwrites_swallowed overwrites_traced overwrites_disableDynamicUpdates)
  have primary: "overwrites ?primary"
    by (intro overwrites_andThen overwrites_setSplitDNS overwrites_setPrimaryDNS)
  have split: "overwrites ?split"
    by (intro overwrites_andThen overwrites_setSplitDNS overwrites_setPrimaryDNS)
  have win7: "overwrites ?win7" by (rule overwrites_return)
  have "overwrites (if x then ?win7 else ?split)" for x
    using win7 split by (cases x) (simp_all only: if_True if_False)
  from overwrites_select [where sel = "\<lambda>m. nrptDB m = None"
         and F = "\<lambda>x. if x then ?win7 else ?split", OF nrptDB_env this]
  have "overwrites (\<lambda>m. (if nrptDB m = None then ?win7 else ?split) m)" .
  with primary have configured: "overwrites ?configured"
    by (rule overwrites_if)
  have "overwrites ?all"
    using p1 configured by (rule overwrites_andThen)
  then have "overwrites (\<lambda>m. case ?all m of (err, m2) \<Rightarrow> (err, m2\<lparr>trace := ?tasks err m2\<rparr>))"
    by (rule overwrites_traced)
  moreover have "SetDNS configureWSL cfg
               = (\<lambda>m. case ?all m of (err, m2) \<Rightarrow> (err, m2\<lparr>trace := ?tasks err m2\<rparr>))"
    by (auto simp: SetDNS_def fun_eq_iff Let_def andThen_def split: prod.splits option.splits)
  ultimately show ?thesis by simp
qed

lemma registry_eqI:
  assumes "same_env m m2"
    and "\<And>key name. regValue m2 key name = regValue m key name"
  shows "registry m2 = registry m"
proof
  fix key
  show "registry m2 key = registry m key"
  proof (cases "registry m key")
    case None
    with same_env_key [OF assms(1), of key] show ?thesis by simp
  next
    case (Some vals)
    with same_env_key [OF assms(1), of key] obtain vals2 where v2: "registry m2 key = Some vals2"
      by auto
    have "vals2 name = vals name" for name
      using assms(2) [of key name] Some v2 by (simp add: regValue_def)
    then have "vals2 = vals" by (simp add: fun_eq_iff)
    with Some v2 show ?thesis by simp
  qed
qed

text \<open>
  C9. For every configuration, every host state and every set of refusals of the host,
  a second \<open>SetDNS\<close> with the same configuration returns what the first returned and
  leaves the registry (every key with every value) and the rule database as the first
  left them. The background tasks (\<open>ipconfig /registerdns\<close>, \<open>ipconfig /flushdns\<close>)
  are started again; they are recorded in the trace, which is not part of the DNS state.
\<close>

theorem SetDNS_idempotent:
  "fst (SetDNS configureWSL cfg (snd (SetDNS configureWSL cfg m))) = fst (SetDNS configureWSL cfg m)
   \<and> registry (snd (SetDNS configureWSL cfg (snd (SetDNS configureWSL cfg m))))
       = registry (snd (SetDNS configureWSL cfg m))
   \<and> nrptDB (snd (SetDNS configureWSL cfg (snd (SetDNS configureWSL cfg m))))
       = nrptDB (snd (SetDNS configureWSL cfg m))"
proof -
  let ?F = "SetDNS configureWSL cfg"
  have ow: "overwrites ?F" by (rule overwrites_SetDNS)
  have e: "same_env m (snd (?F m))" by (rule overwritesD(1) [OF ow])
  have e2: "same_env (snd (?F m)) (snd (?F (snd (?F m))))" by (rule overwritesD(1) [OF ow])
  have "fst (?F (snd (?F m))) = fst (?F m)" by (rule overwritesD(2) [OF ow e])
  moreover have "regValue (snd (?F (snd (?F m)))) key name = regValue (snd (?F m)) key name"
    for key name
    using overwritesD(3) [OF ow e, of key name] by blast
  with e2 have "registry (snd (?F (snd (?F m)))) = registry (snd (?F m))"
    by (rule registry_eqI)
  moreover have "nrptDB (snd (?F (snd (?F m)))) = nrptDB (snd (?F m))"
    using overwritesD(4) [OF ow e] by blast
  ultimately show ?thesis by simp
qed

subsection \<open>The two modes\<close>


lemma ifPath_guid: "guid m1 = guid m \<Longrightarrow> ifPath m1 base = ifPath m base"
  by (simp add: ifPath_def)









end
